theory Spec2Isabelle
  imports Complex_Main
begin

section \<open>JavaScript numbers\<close>

text \<open>
  The program computes with JavaScript numbers. They are modelled as exact reals together
  with the value NaN, which the program produces whenever it does arithmetic on a missing
  (undefined) property and whenever \<open>Math.asin\<close> leaves its domain. Rounding of IEEE
  doubles, the infinities and the sign of zero are not part of the model; a property that
  may be \<open>undefined\<close> is a \<open>jsnum option\<close>, with \<open>None\<close> for \<open>undefined\<close>.
\<close>

datatype jsnum = Num real | NaN

text \<open>ToNumber of a possibly undefined property: \<open>undefined\<close> becomes NaN.\<close>

fun toNumber :: "jsnum option \<Rightarrow> jsnum" where
  "toNumber None = NaN"
| "toNumber (Some v) = v"

fun jadd :: "jsnum \<Rightarrow> jsnum \<Rightarrow> jsnum" where
  "jadd (Num a) (Num b) = Num (a + b)"
| "jadd _ _ = NaN"

fun jsub :: "jsnum \<Rightarrow> jsnum \<Rightarrow> jsnum" where
  "jsub (Num a) (Num b) = Num (a - b)"
| "jsub _ _ = NaN"

fun jmul :: "jsnum \<Rightarrow> jsnum \<Rightarrow> jsnum" where
  "jmul (Num a) (Num b) = Num (a * b)"
| "jmul _ _ = NaN"

text \<open>
  Division: \<open>0 / 0\<close> is NaN. A nonzero number divided by zero is an infinity in
  JavaScript, which this model does not have; the program only divides by constants and by
  table entries that are not zero (see \<open>thresholds_wellformed\<close> below).
\<close>

fun jdiv :: "jsnum \<Rightarrow> jsnum \<Rightarrow> jsnum" where
  "jdiv (Num a) (Num b) = (if b = 0 then NaN else Num (a / b))"
| "jdiv _ _ = NaN"

fun jabs :: "jsnum \<Rightarrow> jsnum" where
  "jabs (Num a) = Num \<bar>a\<bar>"
| "jabs NaN = NaN"

text \<open>\<open>Math.max\<close> and \<open>Math.min\<close> return NaN as soon as one argument is NaN.\<close>

fun jmax :: "jsnum \<Rightarrow> jsnum \<Rightarrow> jsnum" where
  "jmax (Num a) (Num b) = Num (max a b)"
| "jmax _ _ = NaN"

fun jmin :: "jsnum \<Rightarrow> jsnum \<Rightarrow> jsnum" where
  "jmin (Num a) (Num b) = Num (min a b)"
| "jmin _ _ = NaN"

text \<open>Every comparison with NaN is false.\<close>

fun jlt :: "jsnum \<Rightarrow> jsnum \<Rightarrow> bool" where
  "jlt (Num a) (Num b) = (a < b)"
| "jlt _ _ = False"

fun jle :: "jsnum \<Rightarrow> jsnum \<Rightarrow> bool" where
  "jle (Num a) (Num b) = (a \<le> b)"
| "jle _ _ = False"

definition jgt :: "jsnum \<Rightarrow> jsnum \<Rightarrow> bool" where
  "jgt a b = jlt b a"

definition jge :: "jsnum \<Rightarrow> jsnum \<Rightarrow> bool" where
  "jge a b = jle b a"

text \<open>Truthiness of a number: \<open>0\<close> and NaN are falsy.\<close>

fun truthy :: "jsnum \<Rightarrow> bool" where
  "truthy (Num a) = (a \<noteq> 0)"
| "truthy NaN = False"

text \<open>\<open>x || y\<close> for a possibly undefined number \<open>x\<close>.\<close>

fun jor :: "jsnum option \<Rightarrow> jsnum \<Rightarrow> jsnum" where
  "jor None d = d"
| "jor (Some v) d = (if truthy v then v else d)"

text \<open>
  \<open>x.toFixed(3)\<close>: the decimal string with three digits after the point, represented by
  its number of thousandths (ties are rounded away from zero); \<open>NaN.toFixed(3)\<close> is the
  string \<open>NaN\<close>.
\<close>

datatype fixed3 = Thousandths int | FixedNaN

fun toFixed3 :: "jsnum \<Rightarrow> fixed3" where
  "toFixed3 (Num x) =
     (if 0 \<le> x then Thousandths \<lfloor>x * 1000 + 1 / 2\<rfloor>
      else Thousandths (- \<lfloor>- x * 1000 + 1 / 2\<rfloor>))"
| "toFixed3 NaN = FixedNaN"

section \<open>The classifier (class DSOWeatherClassifier)\<close>

datatype wtype =
    TORNADO | SUPERCELL | SEVERE_TSTORM | DERECHO
  | THUNDERSTORM | SHOWERS | RAIN | DRIZZLE
  | BLIZZARD | WINTER_STORM | ICE_STORM | FREEZING_RAIN | SNOW | WINTER_MIX
  | BOMB_CYCLONE | HIGH_WIND
  | FOG | CLOUDY | PARTLY_CLOUDY | FAIR

text \<open>
  The value of one threshold property: a bare number (\<open>inversionMin\<close>, \<open>inversionMax\<close>)
  or an object with the optional properties \<open>min\<close>, \<open>max\<close> and \<open>typical\<close>.
\<close>

datatype limits = Bound real | Limits "real option" "real option" "real option"

type_synonym threshold = "(string \<times> limits) list"

text \<open>A factor set is an object: a map from property names to numbers.\<close>

type_synonym factors = "string \<Rightarrow> jsnum option"

abbreviation mn :: "real \<Rightarrow> limits" where
  "mn a \<equiv> Limits (Some a) None None"

abbreviation mx :: "real \<Rightarrow> limits" where
  "mx b \<equiv> Limits None (Some b) None"

abbreviation mnmx :: "real \<Rightarrow> real \<Rightarrow> limits" where
  "mnmx a b \<equiv> Limits (Some a) (Some b) None"

abbreviation mntyp :: "real \<Rightarrow> real \<Rightarrow> limits" where
  "mntyp a t \<equiv> Limits (Some a) None (Some t)"

text \<open>\<open>this.thresholds\<close>, in the order of \<open>Object.entries\<close> (insertion order).\<close>

definition thresholds :: "(wtype \<times> threshold) list" where
  "thresholds =
    [(TORNADO, [(''catalyst'', mntyp 0.50 0.80), (''gradient'', mntyp 0.45 0.72),
                (''fuel'', mntyp 0.40 0.49), (''danger'', mntyp 0.05 0.15),
                (''inversionMax'', Bound 1.0)]),
     (SUPERCELL, [(''catalyst'', mntyp 0.40 0.65), (''gradient'', mntyp 0.35 0.55),
                  (''fuel'', mntyp 0.35 0.45), (''danger'', mntyp 0.03 0.08)]),
     (SEVERE_TSTORM, [(''catalyst'', mntyp 0.25 0.50), (''gradient'', mntyp 0.10 0.30),
                      (''fuel'', mntyp 0.30 0.45), (''danger'', mntyp 0.005 0.03)]),
     (DERECHO, [(''catalyst'', mx 0.35), (''fuel'', mn 0.65),
                (''gradient'', mnmx 0.20 0.50), (''solarAngle'', mn 0.70)]),
     (THUNDERSTORM, [(''fuel'', mn 0.35), (''solarAngle'', mn 0.50), (''catalyst'', mn 0.15)]),
     (SHOWERS, [(''fuel'', mn 0.25), (''solarAngle'', mn 0.40)]),
     (RAIN, [(''fuel'', mn 0.20), (''gradient'', mn 0.05)]),
     (DRIZZLE, [(''fuel'', mnmx 0.15 0.35), (''gradient'', mx 0.15)]),
     (BLIZZARD, [(''catalyst'', mn 0.60), (''fuel'', mx 0.30), (''solarAngle'', mx 0.55),
                 (''gradient'', mn 0.25), (''inversionMin'', Bound 1.0)]),
     (WINTER_STORM, [(''catalyst'', mn 0.40), (''fuel'', mx 0.40), (''solarAngle'', mx 0.60),
                     (''gradient'', mn 0.10)]),
     (ICE_STORM, [(''catalyst'', mn 0.30), (''fuel'', mnmx 0.25 0.50),
                  (''solarAngle'', mnmx 0.45 0.65), (''gradient'', mn 0.15)]),
     (FREEZING_RAIN, [(''fuel'', mnmx 0.20 0.45), (''solarAngle'', mnmx 0.40 0.60)]),
     (SNOW, [(''fuel'', mx 0.35), (''solarAngle'', mx 0.55)]),
     (WINTER_MIX, [(''fuel'', mnmx 0.20 0.45), (''solarAngle'', mnmx 0.45 0.65)]),
     (BOMB_CYCLONE, [(''catalyst'', mn 0.55), (''inversionMin'', Bound 1.2), (''fuel'', mn 0.40)]),
     (HIGH_WIND, [(''catalyst'', mn 0.35), (''gradient'', mn 0.20)]),
     (FOG, [(''catalyst'', mx 0.25), (''gradient'', mx 0.10), (''fuel'', mnmx 0.20 0.50)]),
     (CLOUDY, [(''fuel'', mn 0.15), (''gradient'', mx 0.20)]),
     (PARTLY_CLOUDY, [(''fuel'', mnmx 0.10 0.40)]),
     (FAIR, [(''fuel'', mx 0.25), (''gradient'', mx 0.15), (''catalyst'', mx 0.30)])]"

text \<open>
  \<open>this.weatherMeta\<close>: severity and category of each type (the icon and the colour are
  display strings and are left out).
\<close>

record meta =
  severity :: int
  category :: string

fun weatherMeta :: "wtype \<Rightarrow> meta" where
  "weatherMeta TORNADO = \<lparr>severity = 10, category = ''severe''\<rparr>"
| "weatherMeta SUPERCELL = \<lparr>severity = 9, category = ''severe''\<rparr>"
| "weatherMeta SEVERE_TSTORM = \<lparr>severity = 8, category = ''severe''\<rparr>"
| "weatherMeta DERECHO = \<lparr>severity = 8, category = ''severe''\<rparr>"
| "weatherMeta BOMB_CYCLONE = \<lparr>severity = 8, category = ''winter''\<rparr>"
| "weatherMeta BLIZZARD = \<lparr>severity = 7, category = ''winter''\<rparr>"
| "weatherMeta ICE_STORM = \<lparr>severity = 7, category = ''winter''\<rparr>"
| "weatherMeta WINTER_STORM = \<lparr>severity = 6, category = ''winter''\<rparr>"
| "weatherMeta HIGH_WIND = \<lparr>severity = 5, category = ''wind''\<rparr>"
| "weatherMeta THUNDERSTORM = \<lparr>severity = 5, category = ''convective''\<rparr>"
| "weatherMeta FREEZING_RAIN = \<lparr>severity = 5, category = ''winter''\<rparr>"
| "weatherMeta SNOW = \<lparr>severity = 4, category = ''winter''\<rparr>"
| "weatherMeta WINTER_MIX = \<lparr>severity = 4, category = ''winter''\<rparr>"
| "weatherMeta SHOWERS = \<lparr>severity = 3, category = ''rain''\<rparr>"
| "weatherMeta RAIN = \<lparr>severity = 3, category = ''rain''\<rparr>"
| "weatherMeta DRIZZLE = \<lparr>severity = 2, category = ''rain''\<rparr>"
| "weatherMeta FOG = \<lparr>severity = 2, category = ''visibility''\<rparr>"
| "weatherMeta CLOUDY = \<lparr>severity = 1, category = ''clouds''\<rparr>"
| "weatherMeta PARTLY_CLOUDY = \<lparr>severity = 1, category = ''clouds''\<rparr>"
| "weatherMeta FAIR = \<lparr>severity = 0, category = ''clear''\<rparr>"

subsection \<open>meetsThreshold\<close>

text \<open>
  \<open>factors.inversionRatio < limits\<close> and \<open>factors.inversionRatio > limits\<close>: a missing
  ratio is NaN, an object on the right-hand side converts to NaN, and then the comparison
  is false.
\<close>

fun ltLimits :: "jsnum option \<Rightarrow> limits \<Rightarrow> bool" where
  "ltLimits v (Bound b) = jlt (toNumber v) (Num b)"
| "ltLimits v (Limits a b c) = False"

fun gtLimits :: "jsnum option \<Rightarrow> limits \<Rightarrow> bool" where
  "gtLimits v (Bound b) = jgt (toNumber v) (Num b)"
| "gtLimits v (Limits a b c) = False"

text \<open>\<open>limits.min !== undefined && value < limits.min\<close> and its mirror image.\<close>

fun belowMin :: "jsnum \<Rightarrow> real option \<Rightarrow> bool" where
  "belowMin v None = False"
| "belowMin v (Some m) = jlt v (Num m)"

fun aboveMax :: "jsnum \<Rightarrow> real option \<Rightarrow> bool" where
  "aboveMax v None = False"
| "aboveMax v (Some m) = jgt v (Num m)"

fun meetsThreshold :: "factors \<Rightarrow> threshold \<Rightarrow> bool" where
  "meetsThreshold factors [] = True"
| "meetsThreshold factors ((factor, limits) # rest) =
     (if factor = ''inversionMin'' \<and> ltLimits (factors ''inversionRatio'') limits then False
      else if factor = ''inversionMax'' \<and> gtLimits (factors ''inversionRatio'') limits then False
      else (case limits of
              Bound b \<Rightarrow> meetsThreshold factors rest
            | Limits lmin lmax typical \<Rightarrow>
                (case factors factor of
                   None \<Rightarrow> meetsThreshold factors rest
                 | Some v \<Rightarrow>
                     if belowMin v lmin then False
                     else if aboveMax v lmax then False
                     else meetsThreshold factors rest)))"

subsection \<open>calculateScore\<close>

text \<open>The amount added to \<open>score\<close> for one criterion whose factor has the value \<open>v\<close>.\<close>

fun addScore :: "jsnum \<Rightarrow> jsnum \<Rightarrow> limits \<Rightarrow> jsnum" where
  "addScore score v (Limits lmin lmax (Some t)) =
     jadd score (jmax (Num 0) (jsub (Num 1) (jabs (jsub v (Num t)))))"
| "addScore score v (Limits (Some a) (Some b) None) =
     (let mid = (a + b) / 2; range = b - a;
          distance = jdiv (jabs (jsub v (Num mid))) (Num range)
      in jadd score (jmax (Num 0) (jsub (Num 1) distance)))"
| "addScore score v (Limits (Some a) None None) =
     jadd score (if jge v (Num a) then jdiv (jsub v (Num a)) (Num (1 - a)) else Num 0)"
| "addScore score v (Limits None (Some b) None) =
     jadd score (if jle v (Num b) then jdiv (jsub (Num b) v) (Num b) else Num 0)"
| "addScore score v (Limits None None None) = score"
| "addScore score v (Bound b) = score"

text \<open>The loop of calculateScore, with its two variables \<open>score\<close> and \<open>checks\<close>.\<close>

fun scoreLoop :: "factors \<Rightarrow> threshold \<Rightarrow> jsnum \<Rightarrow> nat \<Rightarrow> jsnum \<times> nat" where
  "scoreLoop factors [] score checks = (score, checks)"
| "scoreLoop factors ((factor, limits) # rest) score checks =
     (if take 9 factor = ''inversion'' then scoreLoop factors rest score checks
      else (case limits of
              Bound b \<Rightarrow> scoreLoop factors rest score checks
            | Limits lmin lmax typical \<Rightarrow>
                (case factors factor of
                   None \<Rightarrow> scoreLoop factors rest score checks
                 | Some v \<Rightarrow> scoreLoop factors rest (addScore score v limits) (Suc checks))))"

definition calculateScore :: "factors \<Rightarrow> threshold \<Rightarrow> jsnum" where
  "calculateScore factors threshold =
     (case scoreLoop factors threshold (Num 0) 0 of
        (score, checks) \<Rightarrow> if checks > 0 then jdiv score (Num (real checks)) else Num 0)"

subsection \<open>getTemperatureRegime\<close>

datatype regime = COLD | COOL | MILD | WARM | HOT

definition getTemperatureRegime :: "jsnum option \<Rightarrow> jsnum option \<Rightarrow> regime" where
  "getTemperatureRegime solarAngle fuel =
     (let tempScore = jadd (jmul (toNumber solarAngle) (Num 0.6)) (jmul (toNumber fuel) (Num 0.4))
      in if jlt tempScore (Num 0.35) then COLD
         else if jlt tempScore (Num 0.50) then COOL
         else if jlt tempScore (Num 0.65) then MILD
         else if jlt tempScore (Num 0.80) then WARM
         else HOT)"

subsection \<open>classify\<close>

text \<open>
  \<open>Math.pow(x, 2)\<close>.
\<close>

fun jpow2 :: "jsnum \<Rightarrow> jsnum" where
  "jpow2 (Num a) = Num (a ^ 2)"
| "jpow2 NaN = NaN"

text \<open>
  \<open>augmentedFactors\<close>: the factor set with \<open>danger\<close> replaced by
  \<open>danger || fuel * gradient * catalyst^2 * solarAngle^2\<close>. The property \<open>danger\<close> is
  always present afterwards; it is NaN when it had to be computed from a missing factor.
\<close>

definition augmentedFactors :: "factors \<Rightarrow> factors" where
  "augmentedFactors factors =
     factors(''danger'' \<mapsto>
       jor (factors ''danger'')
         (jmul (jmul (jmul (toNumber (factors ''fuel'')) (toNumber (factors ''gradient'')))
                     (jpow2 (toNumber (factors ''catalyst''))))
               (jpow2 (toNumber (factors ''solarAngle'')))))"

record candidate =
  ctype :: wtype
  score :: jsnum
  cthreshold :: threshold

text \<open>The loop over \<open>Object.entries(this.thresholds)\<close> that fills \<open>candidates\<close>.\<close>

fun collectCandidates :: "factors \<Rightarrow> (wtype \<times> threshold) list \<Rightarrow> candidate list" where
  "collectCandidates fs [] = []"
| "collectCandidates fs ((t, threshold) # rest) =
     (if meetsThreshold fs threshold
      then \<lparr>ctype = t, score = calculateScore fs threshold, cthreshold = threshold\<rparr>
             # collectCandidates fs rest
      else collectCandidates fs rest)"

text \<open>The comparison function given to \<open>candidates.sort\<close>.\<close>

definition compareCandidates :: "candidate \<Rightarrow> candidate \<Rightarrow> jsnum" where
  "compareCandidates a b =
     (let sevA = meta.severity (weatherMeta (ctype a));
          sevB = meta.severity (weatherMeta (ctype b))
      in if sevB \<noteq> sevA then Num (of_int (sevB - sevA)) else jsub (score b) (score a))"

text \<open>
  \<open>Array.prototype.sort\<close> with a comparison function: a stable sort that puts \<open>x\<close> after
  \<open>y\<close> when \<open>cmp x y > 0\<close> and treats a NaN result as \<open>0\<close>. It is modelled as a stable
  insertion sort. When the comparison function is consistent every stable sort gives this
  result; when it is not (which here takes a NaN score) the language leaves the order to
  the implementation, and the model fixes one.
\<close>

fun insertBy :: "('a \<Rightarrow> 'a \<Rightarrow> jsnum) \<Rightarrow> 'a \<Rightarrow> 'a list \<Rightarrow> 'a list" where
  "insertBy cmp x [] = [x]"
| "insertBy cmp x (y # ys) =
     (if jgt (cmp x y) (Num 0) then y # insertBy cmp x ys else x # y # ys)"

fun sortBy :: "('a \<Rightarrow> 'a \<Rightarrow> jsnum) \<Rightarrow> 'a list \<Rightarrow> 'a list" where
  "sortBy cmp [] = []"
| "sortBy cmp (x # xs) = insertBy cmp x (sortBy cmp xs)"

text \<open>The local variable \<open>candidates\<close> after the sort.\<close>

definition candidates :: "factors \<Rightarrow> candidate list" where
  "candidates factors =
     sortBy compareCandidates (collectCandidates (augmentedFactors factors) thresholds)"

definition isWinter :: "candidate \<Rightarrow> bool" where
  "isWinter c = (meta.category (weatherMeta (ctype c)) = ''winter'')"

record classification =
  primary :: wtype
  secondary :: "wtype option"
  confidence :: jsnum
  severity :: int
  category :: string
  tempRegime :: regime
  allCandidates :: "(wtype \<times> fixed3) list"

text \<open>
  The argument of classify: destructuring \<open>undefined\<close> or \<open>null\<close> throws a TypeError, an
  object never does.
\<close>

datatype jsarg = JsUndefined | JsNull | JsObject factors

datatype js_error = TypeError

definition classify :: "jsarg \<Rightarrow> js_error + classification" where
  "classify arg =
     (case arg of
        JsUndefined \<Rightarrow> Inl TypeError
      | JsNull \<Rightarrow> Inl TypeError
      | JsObject factors \<Rightarrow>
          (let regime = getTemperatureRegime (factors ''solarAngle'') (factors ''fuel'');
               cs = candidates factors;
               primary0 = (case cs of [] \<Rightarrow> FAIR | c # _ \<Rightarrow> ctype c);
               secondary0 = (case cs of _ # c # _ \<Rightarrow> Some (ctype c) | _ \<Rightarrow> None);
               confidence0 = (case cs of [] \<Rightarrow> Num 0.5 | c # _ \<Rightarrow> jor (Some (score c)) (Num 0.5));
               primary1 =
                 (if regime = COLD \<or> regime = COOL
                  then (case find isWinter cs of
                          None \<Rightarrow> primary0
                        | Some winterCandidate \<Rightarrow>
                            if jgt (score winterCandidate) (Num 0.3)
                            then ctype winterCandidate else primary0)
                  else primary0);
               m = weatherMeta primary1
           in Inr \<lparr>primary = primary1,
                   secondary = secondary0,
                   confidence = jmin (Num 1) confidence0,
                   severity = meta.severity m,
                   category = meta.category m,
                   tempRegime = regime,
                   allCandidates = map (\<lambda>c. (ctype c, toFixed3 (score c))) (take 5 cs)\<rparr>))"

section \<open>The engine (class DSOWeatherEngine)\<close>

fun jsin :: "jsnum \<Rightarrow> jsnum" where
  "jsin (Num a) = Num (sin a)"
| "jsin NaN = NaN"

fun jcos :: "jsnum \<Rightarrow> jsnum" where
  "jcos (Num a) = Num (cos a)"
| "jcos NaN = NaN"

text \<open>\<open>Math.asin\<close> is NaN outside \<open>[-1, 1]\<close>.\<close>

fun jasin :: "jsnum \<Rightarrow> jsnum" where
  "jasin (Num a) = (if - 1 \<le> a \<and> a \<le> 1 then Num (arcsin a) else NaN)"
| "jasin NaN = NaN"

definition EARTH_TILT :: real where "EARTH_TILT = 23.44"
definition DAYS_PER_YEAR :: real where "DAYS_PER_YEAR = 365.25"
definition SPRING_EQUINOX_DOY :: real where "SPRING_EQUINOX_DOY = 80"
definition GULF_SST_BASELINE :: real where "GULF_SST_BASELINE = 26.0"
definition GULF_SST_CURRENT :: real where "GULF_SST_CURRENT = 27.0"
definition WARMING_COEFFICIENT :: real where "WARMING_COEFFICIENT = 1.0"
definition ARCTIC_DAMPING :: real where "ARCTIC_DAMPING = 0.3"

record regionData =
  r_lat :: real
  r_fuel :: real
  r_gradient :: real

definition REGIONAL_FUEL :: "(string \<times> regionData) list" where
  "REGIONAL_FUEL =
    [(''gulf_coast'', \<lparr>r_lat = 30, r_fuel = 1.00, r_gradient = 0.60\<rparr>),
     (''dixie_alley'', \<lparr>r_lat = 34, r_fuel = 0.90, r_gradient = 1.00\<rparr>),
     (''tornado_alley'', \<lparr>r_lat = 36, r_fuel = 0.80, r_gradient = 1.00\<rparr>),
     (''southern_plains'', \<lparr>r_lat = 33, r_fuel = 0.85, r_gradient = 0.90\<rparr>),
     (''midwest'', \<lparr>r_lat = 40, r_fuel = 0.65, r_gradient = 0.80\<rparr>),
     (''northern_plains'', \<lparr>r_lat = 45, r_fuel = 0.45, r_gradient = 0.50\<rparr>),
     (''northeast'', \<lparr>r_lat = 42, r_fuel = 0.40, r_gradient = 0.40\<rparr>),
     (''southeast'', \<lparr>r_lat = 33, r_fuel = 0.85, r_gradient = 0.75\<rparr>),
     (''pacific_nw'', \<lparr>r_lat = 47, r_fuel = 0.30, r_gradient = 0.30\<rparr>),
     (''southwest'', \<lparr>r_lat = 34, r_fuel = 0.25, r_gradient = 0.20\<rparr>)]"

text \<open>
  \<open>this.REGIONAL_FUEL[region]\<close>. The table is an object literal, so a property lookup
  that finds no own property goes on to \<open>Object.prototype\<close>: for the names below it
  yields an inherited function (for \<open>__proto__\<close> the prototype object itself), which is a
  truthy value without the properties \<open>lat\<close>, \<open>fuel\<close> and \<open>gradient\<close>.
\<close>

datatype 'a property = Own 'a | Inherited | Missing

definition objectPrototypeKeys :: "string list" where
  "objectPrototypeKeys =
    [''constructor'', ''hasOwnProperty'', ''isPrototypeOf'', ''propertyIsEnumerable'',
     ''toLocaleString'', ''toString'', ''valueOf'', ''__proto__'',
     ''__defineGetter__'', ''__defineSetter__'', ''__lookupGetter__'', ''__lookupSetter__'']"

definition getRegion :: "string \<Rightarrow> regionData property" where
  "getRegion key =
     (case map_of REGIONAL_FUEL key of
        Some r \<Rightarrow> Own r
      | None \<Rightarrow> if key \<in> set objectPrototypeKeys then Inherited else Missing)"

text \<open>A parameter with a default value: \<open>climateOffset = 0\<close>.\<close>

fun withDefault :: "jsnum option \<Rightarrow> jsnum \<Rightarrow> jsnum" where
  "withDefault None d = d"
| "withDefault (Some v) d = v"

definition getCatalyst :: "jsnum \<Rightarrow> jsnum" where
  "getCatalyst dayOfYear =
     (let shifted = jsub dayOfYear (Num SPRING_EQUINOX_DOY);
          rate = jabs (jcos (jdiv (jmul (Num (2 * pi)) shifted) (Num DAYS_PER_YEAR)))
      in rate)"

text \<open>
  getSolarAngle passes the sum of the two products to \<open>Math.asin\<close> as it is. In exact
  arithmetic that sum is \<open>cos (lat - decl)\<close> and cannot exceed \<open>1\<close>; the doubles of
  the program can round it to \<open>1.0000000000000002\<close> when the latitude equals the day's
  declination, which these real numbers do not show.
\<close>

definition getSolarAngle :: "jsnum option \<Rightarrow> jsnum \<Rightarrow> jsnum" where
  "getSolarAngle lat dayOfYear =
     (let latRad = jdiv (jmul (toNumber lat) (Num pi)) (Num 180);
          declination = jmul (Num EARTH_TILT)
            (jsin (jdiv (jmul (Num (2 * pi)) (jsub dayOfYear (Num 81))) (Num DAYS_PER_YEAR)));
          decRad = jdiv (jmul declination (Num pi)) (Num 180);
          solarElevation = jasin (jadd (jmul (jsin latRad) (jsin decRad))
                                       (jmul (jcos latRad) (jcos decRad)))
      in jmax (Num 0) (jsin solarElevation))"

text \<open>\<open>this.REGIONAL_FUEL[region]?.fuel || 0.5\<close> and the same for \<open>gradient\<close>.\<close>

definition baseFuel :: "string \<Rightarrow> real" where
  "baseFuel region =
     (case getRegion region of
        Own r \<Rightarrow> if r_fuel r \<noteq> 0 then r_fuel r else 0.5
      | Inherited \<Rightarrow> 0.5
      | Missing \<Rightarrow> 0.5)"

definition baseGradient :: "string \<Rightarrow> real" where
  "baseGradient region =
     (case getRegion region of
        Own r \<Rightarrow> if r_gradient r \<noteq> 0 then r_gradient r else 0.5
      | Inherited \<Rightarrow> 0.5
      | Missing \<Rightarrow> 0.5)"

text \<open>
  getEFuel and getGradient. In exact arithmetic a change of the offset always changes the
  value before the clamp; in the doubles of the program two offsets that are close enough
  give the same value, so only the direction of the change carries over, not its
  strictness.
\<close>

definition getEFuel :: "string \<Rightarrow> jsnum option \<Rightarrow> jsnum" where
  "getEFuel region climateOffset =
     (let base = baseFuel region;
          warming = jadd (Num (GULF_SST_CURRENT - GULF_SST_BASELINE)) (withDefault climateOffset (Num 0));
          adjusted = jmul (Num base)
                       (jadd (Num 1) (jmul (jmul (Num WARMING_COEFFICIENT) warming) (Num 0.1)))
      in jmin (Num 1.0) adjusted)"

definition getGradient :: "string \<Rightarrow> jsnum option \<Rightarrow> jsnum" where
  "getGradient region climateOffset =
     (let base = baseGradient region;
          arcticWarming = jmul (withDefault climateOffset (Num 0)) (Num ARCTIC_DAMPING);
          adjusted = jmul (Num base) (jsub (Num 1) (jmul arcticWarming (Num 0.1)))
      in jmax (Num 0) adjusted)"

definition getSolarPunch :: "jsnum option \<Rightarrow> jsnum \<Rightarrow> jsnum" where
  "getSolarPunch lat dayOfYear = jmul (getSolarAngle lat dayOfYear) (getCatalyst dayOfYear)"

definition getProbability :: "jsnum \<Rightarrow> jsnum \<Rightarrow> jsnum \<Rightarrow> jsnum" where
  "getProbability fuel catalyst solarAngle = jmul (jmul fuel catalyst) solarAngle"

definition getVolatility :: "jsnum \<Rightarrow> jsnum \<Rightarrow> jsnum \<Rightarrow> jsnum" where
  "getVolatility gradient catalyst solarAngle = jmul (jmul gradient catalyst) solarAngle"

definition getDangerIndex :: "jsnum \<Rightarrow> jsnum \<Rightarrow> jsnum \<Rightarrow> jsnum \<Rightarrow> jsnum" where
  "getDangerIndex fuel gradient catalyst solarAngle =
     jmul (jmul (jmul fuel gradient) (jpow2 catalyst)) (jpow2 solarAngle)"

definition getTornadoScale :: "jsnum \<Rightarrow> string" where
  "getTornadoScale volatility =
     (if jgt volatility (Num 0.90) then ''EF5''
      else if jgt volatility (Num 0.80) then ''EF4''
      else if jgt volatility (Num 0.65) then ''EF3''
      else if jgt volatility (Num 0.50) then ''EF2''
      else if jgt volatility (Num 0.35) then ''EF1''
      else ''EF0'')"

text \<open>
  One entry of \<open>results\<close> in classifyStorm (the \<open>mechanism\<close> text is left out; only the
  tornado entry has a \<open>severity\<close>).
\<close>

record storm =
  s_type :: string
  s_probability :: jsnum
  s_severity :: "string option"

record stormClassification =
  sc_primary :: storm
  sc_secondary :: "storm option"
  sc_all :: "storm list"
  sc_probability :: jsnum
  sc_volatility :: jsnum
  sc_danger :: jsnum

text \<open>The list \<open>results\<close> that classifyStorm builds, before it is sorted.\<close>

definition stormResults ::
  "jsnum \<Rightarrow> jsnum \<Rightarrow> jsnum \<Rightarrow> jsnum \<Rightarrow> jsnum \<Rightarrow> jsnum \<Rightarrow> storm list" where
  "stormResults fuel gradient catalyst solarAngle probability volatility =
     (if jgt gradient (Num 0.70) \<and> jgt catalyst (Num 0.60) \<and> jgt volatility (Num 0.40)
      then [\<lparr>s_type = ''TORNADO'', s_probability = volatility,
              s_severity = Some (getTornadoScale volatility)\<rparr>] else []) @
     (if jgt gradient (Num 0.50) \<and> jgt catalyst (Num 0.40) \<and> jgt fuel (Num 0.50)
      then [\<lparr>s_type = ''SUPERCELL'', s_probability = jmul probability gradient,
              s_severity = None\<rparr>] else []) @
     (if jgt fuel (Num 0.75) \<and> jlt catalyst (Num 0.35) \<and> jlt gradient (Num 0.50)
      then [\<lparr>s_type = ''DERECHO'',
              s_probability = jmul (jpow2 fuel) (jsub (Num 1) catalyst),
              s_severity = None\<rparr>] else []) @
     (if jgt gradient (Num 0.30) \<and> jgt fuel (Num 0.40) \<and> jgt solarAngle (Num 0.30)
      then [\<lparr>s_type = ''SEVERE_THUNDERSTORM'',
              s_probability = jmul (jmul fuel gradient) solarAngle,
              s_severity = None\<rparr>] else []) @
     (if jgt gradient (Num 0.50) \<and> jgt catalyst (Num 0.40) \<and> jlt solarAngle (Num 0.35)
      then [\<lparr>s_type = ''BLIZZARD'',
              s_probability = jmul (jmul gradient catalyst) (jsub (Num 1) solarAngle),
              s_severity = None\<rparr>] else []) @
     (if jgt fuel (Num 0.30) \<and> jgt solarAngle (Num 0.40)
      then [\<lparr>s_type = ''THUNDERSTORM'',
              s_probability = jmul (jmul fuel solarAngle) (Num 0.5),
              s_severity = None\<rparr>] else []) @
     (if jgt fuel (Num 0.70)
      then [\<lparr>s_type = ''FLASH_FLOOD_RISK'', s_probability = jmul fuel (Num 0.4),
              s_severity = None\<rparr>] else [])"

definition classifyStorm :: "jsnum \<Rightarrow> jsnum \<Rightarrow> jsnum \<Rightarrow> jsnum \<Rightarrow> stormClassification" where
  "classifyStorm fuel gradient catalyst solarAngle =
     (let probability = getProbability fuel catalyst solarAngle;
          volatility = getVolatility gradient catalyst solarAngle;
          danger = getDangerIndex fuel gradient catalyst solarAngle;
          results = stormResults fuel gradient catalyst solarAngle probability volatility;
          sortedResults = sortBy (\<lambda>a b. jsub (s_probability b) (s_probability a)) results
      in \<lparr>sc_primary = (case sortedResults of [] \<Rightarrow> \<lparr>s_type = ''STABLE'', s_probability = Num 0,
                                                  s_severity = None\<rparr>
                                      | r # _ \<Rightarrow> r),
          sc_secondary = (case sortedResults of _ # r # _ \<Rightarrow> Some r | _ \<Rightarrow> None),
          sc_all = sortedResults,
          sc_probability = probability,
          sc_volatility = volatility,
          sc_danger = danger\<rparr>)"

text \<open>
  The object returned by infer: either \<open>{ error: 'Unknown region: ...' }\<close> or the
  prediction. The formatted date, the interpretation texts and the DSO signature are
  display values computed from the same numbers by comparisons and arithmetic only; they
  are left out.
\<close>

datatype infer_error = UnknownRegion string

record inference =
  i_region :: string
  i_latitude :: "jsnum option"
  i_dayOfYear :: jsnum
  i_climateOffset :: jsnum
  i_fuel :: jsnum
  i_gradient :: jsnum
  i_catalyst :: jsnum
  i_solarAngle :: jsnum
  i_solarPunch :: jsnum
  i_probability :: jsnum
  i_volatility :: jsnum
  i_danger :: jsnum
  i_prediction :: storm
  i_alternatives :: "storm list"

definition infer :: "string \<Rightarrow> jsnum \<Rightarrow> jsnum option \<Rightarrow> infer_error + inference" where
  "infer region dayOfYear climateOffset =
     (case getRegion region of
        Missing \<Rightarrow> Inl (UnknownRegion region)
      | regionData \<Rightarrow>
          (let lat = (case regionData of Own r \<Rightarrow> Some (Num (r_lat r)) | _ \<Rightarrow> None);
               fuel = getEFuel region climateOffset;
               gradient = getGradient region climateOffset;
               catalyst = getCatalyst dayOfYear;
               solarAngle = getSolarAngle lat dayOfYear;
               solarPunch = getSolarPunch lat dayOfYear;
               classification = classifyStorm fuel gradient catalyst solarAngle
           in Inr \<lparr>i_region = region,
                   i_latitude = lat,
                   i_dayOfYear = dayOfYear,
                   i_climateOffset = withDefault climateOffset (Num 0),
                   i_fuel = fuel,
                   i_gradient = gradient,
                   i_catalyst = catalyst,
                   i_solarAngle = solarAngle,
                   i_solarPunch = solarPunch,
                   i_probability = sc_probability classification,
                   i_volatility = sc_volatility classification,
                   i_danger = sc_danger classification,
                   i_prediction = sc_primary classification,
                   i_alternatives = drop 1 (sc_all classification)\<rparr>))"

section \<open>The factor calculator (class DSOFactorCalculator)\<close>

text \<open>
  The second copy of the factor formulas: the catalyst as the normalised derivative of the
  tilt, and the solar angle clamped to \<open>[0, 1]\<close> without the detour through the arcsine.
\<close>

definition calc_getCatalyst :: "jsnum \<Rightarrow> jsnum" where
  "calc_getCatalyst dayOfYear =
     (let phase = jdiv (jmul (Num (2 * pi)) (jsub dayOfYear (Num 80))) (Num 365.25);
          rawValue = jmul (Num (23.5 * (2 * pi / 365.25))) (jcos phase)
      in jdiv (jabs rawValue) (Num 0.405))"

definition calc_getSolarDeclination :: "jsnum \<Rightarrow> jsnum" where
  "calc_getSolarDeclination dayOfYear =
     jmul (Num 23.45) (jsin (jmul (Num (2 * pi / 365.25)) (jsub dayOfYear (Num 81))))"

definition calc_getSolarAngle :: "jsnum \<Rightarrow> jsnum \<Rightarrow> jsnum" where
  "calc_getSolarAngle dayOfYear latitude =
     (let declination = calc_getSolarDeclination dayOfYear;
          decRad = jdiv (jmul declination (Num pi)) (Num 180);
          latRad = jdiv (jmul latitude (Num pi)) (Num 180);
          sinAlpha = jadd (jmul (jsin latRad) (jsin decRad)) (jmul (jcos latRad) (jcos decRad))
      in jmax (Num 0) (jmin (Num 1) sinAlpha))"

section \<open>Notions used in the statements\<close>

text \<open>The severity by which the comparison function ranks a candidate.\<close>

definition sev :: "candidate \<Rightarrow> int" where
  "sev c = meta.severity (weatherMeta (ctype c))"

text \<open>
  The order the sort is meant to establish: higher severity first and, at equal severity,
  the higher score first. Scores are compared as numbers, so a NaN score ranks nowhere.
\<close>

definition ranksBefore :: "candidate \<Rightarrow> candidate \<Rightarrow> bool" where
  "ranksBefore a b = (sev b < sev a \<or> (sev a = sev b \<and> jle (score b) (score a)))"

fun isNum :: "jsnum option \<Rightarrow> bool" where
  "isNum (Some (Num a)) = True"
| "isNum _ = False"

text \<open>
  A factor set as the engine produces it: the four base factors are present numbers, and
  \<open>danger\<close>, when given, is not NaN.
\<close>

definition numericFactors :: "factors \<Rightarrow> bool" where
  "numericFactors f =
     (isNum (f ''catalyst'') \<and> isNum (f ''gradient'') \<and> isNum (f ''fuel'')
      \<and> isNum (f ''solarAngle'') \<and> f ''danger'' \<noteq> Some NaN)"

text \<open>The divisors that calculateScore takes from a criterion are not zero.\<close>

fun wellformedLimits :: "limits \<Rightarrow> bool" where
  "wellformedLimits (Limits a b (Some t)) = True"
| "wellformedLimits (Limits (Some a) (Some b) None) = (b - a \<noteq> 0)"
| "wellformedLimits (Limits (Some a) None None) = (1 - a \<noteq> 0)"
| "wellformedLimits (Limits None (Some b) None) = (b \<noteq> 0)"
| "wellformedLimits (Limits None None None) = True"
| "wellformedLimits (Bound b) = True"

definition factorNames :: "string list" where
  "factorNames = [''catalyst'', ''gradient'', ''fuel'', ''solarAngle'', ''danger'']"

definition wellformedThreshold :: "threshold \<Rightarrow> bool" where
  "wellformedThreshold thr =
     list_all (\<lambda>(k, l). wellformedLimits l
                 \<and> (case l of Bound b \<Rightarrow> True | Limits a b c \<Rightarrow> k \<in> set factorNames)) thr"


text \<open>
  The factor by which the calculator's catalyst differs from the engine's: the amplitude
  \<open>23.5 * (2 * pi / 365.25)\<close> of the derivative divided by the constant \<open>0.405\<close>.
\<close>

definition catalystScale :: real where
  "catalystScale = 23.5 * (2 * pi / 365.25) / 0.405"

section \<open>Properties of the classifier\<close>

subsection \<open>The default result\<close>

lemma collectCandidates_none:
  "(\<forall>(t, thr) \<in> set tbl. \<not> meetsThreshold fs thr) \<Longrightarrow> collectCandidates fs tbl = []"
  by (induction tbl) auto

text \<open>
  Claim C6. When no weather-type definition passes its threshold gate (the gate is tested
  on the augmented factor set), classify returns a result whose primary type is FAIR and
  whose confidence is 0.5.
\<close>

theorem classify_default_FAIR:
  assumes "\<forall>(t, thr) \<in> set thresholds. \<not> meetsThreshold (augmentedFactors f) thr"
  shows "\<exists>r. classify (JsObject f) = Inr r \<and> primary r = FAIR \<and> confidence r = Num 0.5"
proof -
  have "candidates f = []"
    using assms by (simp add: candidates_def collectCandidates_none)
  then show ?thesis
    by (simp add: classify_def Let_def)
qed

text \<open>
  A factor set that no definition accepts: very little fuel, a strong gradient, a low
  catalyst and a high sun.
\<close>

theorem classify_default_FAIR_witness:
  "list_all (\<lambda>(t, thr). \<not> meetsThreshold (augmentedFactors
       (map_of [(''fuel'', Num 0.05), (''gradient'', Num 0.5), (''catalyst'', Num 0.3),
                (''solarAngle'', Num 0.9)])) thr) thresholds
   \<and> (\<exists>r. classify (JsObject (map_of [(''fuel'', Num 0.05), (''gradient'', Num 0.5),
                (''catalyst'', Num 0.3), (''solarAngle'', Num 0.9)])) = Inr r
          \<and> primary r = FAIR \<and> confidence r = Num 0.5)"
proof -
  have h: "\<forall>(t, thr) \<in> set thresholds. \<not> meetsThreshold (augmentedFactors
       (map_of [(''fuel'', Num 0.05), (''gradient'', Num 0.5), (''catalyst'', Num 0.3),
                (''solarAngle'', Num 0.9)])) thr"
    by (simp add: thresholds_def augmentedFactors_def jgt_def)
  show ?thesis using h classify_default_FAIR [OF h] by (simp add: list_all_iff)
qed

subsection \<open>Criteria on absent factors\<close>

lemma meetsThreshold_skip_absent:
  "fs k = None \<Longrightarrow>
   meetsThreshold fs (xs @ (k, Limits a b c) # ys) = meetsThreshold fs (xs @ ys)"
proof (induction xs)
  case Nil
  then show ?case by simp
next
  case (Cons x xs)
  obtain k' l' where x: "x = (k', l')" by (cases x)
  show ?case
    unfolding x using Cons by (simp split: limits.splits option.splits)
qed

lemma meetsThreshold_skip_bound:
  "fs ''inversionRatio'' = None \<Longrightarrow>
   meetsThreshold fs (xs @ (k, Bound v) # ys) = meetsThreshold fs (xs @ ys)"
proof (induction xs)
  case Nil
  then show ?case by (simp add: jgt_def)
next
  case (Cons x xs)
  obtain k' l' where x: "x = (k', l')" by (cases x)
  show ?case
    unfolding x using Cons by (simp split: limits.splits option.splits)
qed

lemma scoreLoop_skip_absent:
  "fs k = None \<Longrightarrow>
   scoreLoop fs (xs @ (k, Limits a b c) # ys) s n = scoreLoop fs (xs @ ys) s n"
proof (induction xs arbitrary: s n)
  case Nil
  then show ?case by simp
next
  case (Cons x xs)
  obtain k' l' where x: "x = (k', l')" by (cases x)
  show ?case
    unfolding x using Cons by (simp split: limits.splits option.splits)
qed

lemma scoreLoop_skip_bound:
  "scoreLoop fs (xs @ (k, Bound v) # ys) s n = scoreLoop fs (xs @ ys) s n"
proof (induction xs arbitrary: s n)
  case Nil
  then show ?case by simp
next
  case (Cons x xs)
  obtain k' l' where x: "x = (k', l')" by (cases x)
  show ?case
    unfolding x using Cons by (simp split: limits.splits option.splits)
qed

text \<open>
  Claim C1, as the code has it. The claim says that a criterion whose factor is absent is
  skipped by the score but makes the gate fail. The gate does not fail: THUNDERSTORM
  requires \<open>fuel >= 0.35\<close>, and a factor set without \<open>fuel\<close> passes its gate.
\<close>

theorem gate_passes_absent_factor:
  "map_of thresholds THUNDERSTORM
     = Some [(''fuel'', mn 0.35), (''solarAngle'', mn 0.50), (''catalyst'', mn 0.15)]
   \<and> map_of [(''solarAngle'', Num 0.9), (''catalyst'', Num 0.5)] ''fuel'' = None
   \<and> meetsThreshold (map_of [(''solarAngle'', Num 0.9), (''catalyst'', Num 0.5)])
        [(''fuel'', mn 0.35), (''solarAngle'', mn 0.50), (''catalyst'', mn 0.15)]"
  by (simp add: thresholds_def jgt_def)

text \<open>
  Claim C1, amended. A criterion whose named factor is absent from the factor set is
  skipped by the score and by the gate alike: removing it from the threshold changes
  neither meetsThreshold nor calculateScore. This holds for a criterion with limits on the
  factor \<open>k\<close> when \<open>k\<close> is absent, and for a bare bound (\<open>inversionMin\<close>,
  \<open>inversionMax\<close>) when \<open>inversionRatio\<close> is absent.
\<close>

theorem absent_factor_skipped:
  "(fs k = None \<longrightarrow>
      meetsThreshold fs (xs @ (k, Limits a b c) # ys) = meetsThreshold fs (xs @ ys)
    \<and> calculateScore fs (xs @ (k, Limits a b c) # ys) = calculateScore fs (xs @ ys))
 \<and> (fs ''inversionRatio'' = None \<longrightarrow>
      meetsThreshold fs (xs @ (k, Bound v) # ys) = meetsThreshold fs (xs @ ys)
    \<and> calculateScore fs (xs @ (k, Bound v) # ys) = calculateScore fs (xs @ ys))"
  by (simp add: meetsThreshold_skip_absent meetsThreshold_skip_bound
        scoreLoop_skip_absent scoreLoop_skip_bound calculateScore_def)

theorem absent_factor_skipped_witness:
  "map_of [(''solarAngle'', Num 0.9), (''catalyst'', Num 0.5)] ''fuel'' = None
   \<and> map_of [(''solarAngle'', Num 0.9), (''catalyst'', Num 0.5)] ''inversionRatio'' = None
   \<and> meetsThreshold (map_of [(''solarAngle'', Num 0.9), (''catalyst'', Num 0.5)])
        ([] @ (''fuel'', mn 0.35) # [(''solarAngle'', mn 0.50), (''catalyst'', mn 0.15)])
      = meetsThreshold (map_of [(''solarAngle'', Num 0.9), (''catalyst'', Num 0.5)])
        ([] @ [(''solarAngle'', mn 0.50), (''catalyst'', mn 0.15)])
   \<and> calculateScore (map_of [(''solarAngle'', Num 0.9), (''catalyst'', Num 0.5)])
        ([] @ (''fuel'', mn 0.35) # [(''solarAngle'', mn 0.50), (''catalyst'', mn 0.15)])
      = calculateScore (map_of [(''solarAngle'', Num 0.9), (''catalyst'', Num 0.5)])
        ([] @ [(''solarAngle'', mn 0.50), (''catalyst'', mn 0.15)])
   \<and> meetsThreshold (map_of [(''solarAngle'', Num 0.9), (''catalyst'', Num 0.5)])
        ([(''catalyst'', mn 0.55)] @ (''inversionMin'', Bound 1.2) # [(''fuel'', mn 0.40)])
      = meetsThreshold (map_of [(''solarAngle'', Num 0.9), (''catalyst'', Num 0.5)])
        ([(''catalyst'', mn 0.55)] @ [(''fuel'', mn 0.40)])"
proof -
  let ?f = "map_of [(''solarAngle'', Num 0.9), (''catalyst'', Num 0.5)]"
  have h1: "?f ''fuel'' = None" by simp
  have h2: "?f ''inversionRatio'' = None" by simp
  show ?thesis
    using h1 h2
      absent_factor_skipped [where fs = ?f and k = "''fuel''" and xs = "[]" and a = "Some 0.35"
         and b = None and c = None
         and ys = "[(''solarAngle'', mn 0.50), (''catalyst'', mn 0.15)]"]
      absent_factor_skipped [where fs = ?f and k = "''inversionMin''"
         and xs = "[(''catalyst'', mn 0.55)]" and v = "1.2" and ys = "[(''fuel'', mn 0.40)]"]
    by blast
qed

subsection \<open>The sort\<close>

lemma set_insertBy: "set (insertBy cmp x ys) = insert x (set ys)"
  by (induction ys) auto

lemma set_sortBy: "set (sortBy cmp xs) = set xs"
  by (induction xs) (auto simp: set_insertBy)

lemma length_insertBy: "length (insertBy cmp x ys) = Suc (length ys)"
  by (induction ys) auto

lemma length_sortBy: "length (sortBy cmp xs) = length xs"
  by (induction xs) (auto simp: length_insertBy)

lemma distinct_map_insertBy:
  "distinct (map h (insertBy cmp x ys)) = distinct (map h (x # ys))"
  by (induction ys) (auto simp: set_insertBy)

lemma distinct_map_sortBy: "distinct (map h (sortBy cmp xs)) = distinct (map h xs)"
  by (induction xs) (auto simp: distinct_map_insertBy set_sortBy)

lemma compare_gt_sev: "jgt (compareCandidates x y) (Num 0) \<Longrightarrow> sev x \<le> sev y"
  by (cases "score x"; cases "score y")
     (auto simp: compareCandidates_def sev_def jgt_def Let_def split: if_splits)

lemma compare_not_gt_sev: "\<not> jgt (compareCandidates x y) (Num 0) \<Longrightarrow> sev y \<le> sev x"
  by (cases "score x"; cases "score y")
     (auto simp: compareCandidates_def sev_def jgt_def Let_def split: if_splits)

lemma sorted_sev_insertBy:
  "sorted_wrt (\<lambda>a b. sev b \<le> sev a) ys
   \<Longrightarrow> sorted_wrt (\<lambda>a b. sev b \<le> sev a) (insertBy compareCandidates x ys)"
proof (induction ys)
  case Nil
  then show ?case by simp
next
  case (Cons y ys)
  show ?case
  proof (cases "jgt (compareCandidates x y) (Num 0)")
    case True
    then have "sev x \<le> sev y" by (rule compare_gt_sev)
    with Cons True show ?thesis by (auto simp: set_insertBy)
  next
    case False
    then have "sev y \<le> sev x" by (rule compare_not_gt_sev)
    with Cons False show ?thesis by fastforce
  qed
qed

lemma sorted_sev_sortBy: "sorted_wrt (\<lambda>a b. sev b \<le> sev a) (sortBy compareCandidates xs)"
  by (induction xs) (auto simp: sorted_sev_insertBy)

lemma ranksBefore_trans: "ranksBefore a b \<Longrightarrow> ranksBefore b c \<Longrightarrow> ranksBefore a c"
  by (cases "score a"; cases "score b"; cases "score c") (auto simp: ranksBefore_def)

lemma compare_gt_ranks:
  "score x \<noteq> NaN \<Longrightarrow> score y \<noteq> NaN \<Longrightarrow> jgt (compareCandidates x y) (Num 0) \<Longrightarrow> ranksBefore y x"
  by (cases "score x"; cases "score y")
     (auto simp: compareCandidates_def ranksBefore_def sev_def jgt_def Let_def split: if_splits)

lemma compare_not_gt_ranks:
  "score x \<noteq> NaN \<Longrightarrow> score y \<noteq> NaN \<Longrightarrow> \<not> jgt (compareCandidates x y) (Num 0) \<Longrightarrow> ranksBefore x y"
  by (cases "score x"; cases "score y")
     (auto simp: compareCandidates_def ranksBefore_def sev_def jgt_def Let_def split: if_splits)

lemma sorted_ranks_insertBy:
  "score x \<noteq> NaN \<Longrightarrow> \<forall>c \<in> set ys. score c \<noteq> NaN \<Longrightarrow> sorted_wrt ranksBefore ys
   \<Longrightarrow> sorted_wrt ranksBefore (insertBy compareCandidates x ys)"
proof (induction ys)
  case Nil
  then show ?case by simp
next
  case (Cons y ys)
  show ?case
  proof (cases "jgt (compareCandidates x y) (Num 0)")
    case True
    then have "ranksBefore y x" using Cons.prems by (simp add: compare_gt_ranks)
    with Cons True show ?thesis by (auto simp: set_insertBy)
  next
    case False
    then have xy: "ranksBefore x y" using Cons.prems by (simp add: compare_not_gt_ranks)
    have "\<forall>z \<in> set ys. ranksBefore x z"
      using xy Cons.prems(3) by (auto intro: ranksBefore_trans)
    with xy Cons.prems False show ?thesis by simp
  qed
qed

lemma sorted_ranks_sortBy:
  "\<forall>c \<in> set xs. score c \<noteq> NaN \<Longrightarrow> sorted_wrt ranksBefore (sortBy compareCandidates xs)"
  by (induction xs) (auto simp: sorted_ranks_insertBy set_sortBy)

subsection \<open>Scores are numbers on numeric factor sets\<close>

lemma thresholds_wellformed: "list_all (\<lambda>(t, thr). wellformedThreshold thr) thresholds"
  by (simp add: thresholds_def wellformedThreshold_def factorNames_def)

lemma addScore_Num:
  "wellformedLimits l \<Longrightarrow> \<exists>r. addScore (Num s) (Num v) l = Num r"
  by (cases "(Num s, Num v, l)" rule: addScore.cases) (auto simp: Let_def jge_def)

lemma scoreLoop_Num:
  "wellformedThreshold thr \<Longrightarrow> \<forall>k \<in> set factorNames. g k \<noteq> Some NaN
   \<Longrightarrow> \<exists>r. fst (scoreLoop g thr (Num s) n) = Num r"
proof (induction thr arbitrary: s n)
  case Nil
  then show ?case by simp
next
  case (Cons x thr)
  obtain k l where x: "x = (k, l)" by (cases x)
  have wf: "wellformedThreshold thr" and wl: "wellformedLimits l"
    using Cons.prems(1) by (simp_all add: wellformedThreshold_def x)
  note IH = Cons.IH [OF wf Cons.prems(2)]
  show ?case
  proof (cases "take 9 k = ''inversion''")
    case True
    then show ?thesis using IH by (simp add: x)
  next
    case notinv: False
    show ?thesis
    proof (cases l)
      case (Bound b)
      then show ?thesis using IH notinv by (simp add: x)
    next
      case (Limits a b c)
      then have kin: "k \<in> set factorNames"
        using Cons.prems(1) by (simp add: wellformedThreshold_def x)
      show ?thesis
      proof (cases "g k")
        case None
        then show ?thesis using IH notinv Limits by (simp add: x)
      next
        case (Some v)
        then obtain r where v: "v = Num r"
          using kin Cons.prems(2) by (cases v) auto
        obtain s' where "addScore (Num s) (Num r) l = Num s'"
          using addScore_Num [OF wl] by blast
        then show ?thesis using IH [of s' "Suc n"] notinv Limits Some v by (simp add: x)
      qed
    qed
  qed
qed

lemma calculateScore_Num:
  "wellformedThreshold thr \<Longrightarrow> \<forall>k \<in> set factorNames. g k \<noteq> Some NaN
   \<Longrightarrow> calculateScore g thr \<noteq> NaN"
proof -
  assume a: "wellformedThreshold thr" "\<forall>k \<in> set factorNames. g k \<noteq> Some NaN"
  obtain r where "fst (scoreLoop g thr (Num 0) 0) = Num r"
    using scoreLoop_Num [OF a] by blast
  then show ?thesis
    by (cases "scoreLoop g thr (Num 0) 0") (simp add: calculateScore_def)
qed

lemma augmented_numeric:
  "numericFactors f \<Longrightarrow> \<forall>k \<in> set factorNames. augmentedFactors f k \<noteq> Some NaN"
proof -
  assume n: "numericFactors f"
  then obtain ca gr fu sa where v: "f ''catalyst'' = Some (Num ca)" "f ''gradient'' = Some (Num gr)"
      "f ''fuel'' = Some (Num fu)" "f ''solarAngle'' = Some (Num sa)"
    unfolding numericFactors_def
    by (metis isNum.elims(2))
  have d: "f ''danger'' \<noteq> Some NaN" using n by (simp add: numericFactors_def)
  have "augmentedFactors f ''danger'' \<noteq> Some NaN"
  proof (cases "f ''danger''")
    case None
    then show ?thesis by (simp add: augmentedFactors_def v)
  next
    case (Some x)
    then show ?thesis using d by (cases x) (simp_all add: augmentedFactors_def v)
  qed
  then show ?thesis
    using v by (auto simp: factorNames_def augmentedFactors_def)
qed

lemma collectCandidates_mem:
  "(t \<in> ctype ` set (collectCandidates g tbl))
     = (\<exists>thr. (t, thr) \<in> set tbl \<and> meetsThreshold g thr)"
proof (induction tbl)
  case Nil
  then show ?case by simp
next
  case (Cons x tbl)
  obtain t' thr' where x: "x = (t', thr')" by (cases x)
  show ?case
  proof (cases "meetsThreshold g thr'")
    case True
    then show ?thesis using Cons by (auto simp: x)
  next
    case False
    then show ?thesis using Cons by (auto simp: x)
  qed
qed

lemma collectCandidates_types:
  "ctype ` set (collectCandidates g tbl) = {t. \<exists>thr. (t, thr) \<in> set tbl \<and> meetsThreshold g thr}"
  using collectCandidates_mem [of _ g tbl] by blast

lemma collectCandidates_score:
  "c \<in> set (collectCandidates g tbl)
   \<Longrightarrow> \<exists>thr. (ctype c, thr) \<in> set tbl \<and> meetsThreshold g thr \<and> score c = calculateScore g thr"
proof (induction tbl)
  case Nil
  then show ?case by simp
next
  case (Cons x tbl)
  obtain t' thr' where x: "x = (t', thr')" by (cases x)
  show ?case
  proof (cases "meetsThreshold g thr'")
    case True
    show ?thesis
    proof (cases "c \<in> set (collectCandidates g tbl)")
      case True
      then show ?thesis using Cons.IH by (auto simp: x)
    next
      case False
      then have "c = \<lparr>ctype = t', score = calculateScore g thr', cthreshold = thr'\<rparr>"
        using Cons.prems \<open>meetsThreshold g thr'\<close> by (simp add: x)
      then show ?thesis using \<open>meetsThreshold g thr'\<close> by (auto simp: x)
    qed
  next
    case False
    then show ?thesis using Cons by (auto simp: x)
  qed
qed

lemma collectCandidates_distinct:
  "distinct (map fst tbl) \<Longrightarrow> distinct (map ctype (collectCandidates g tbl))"
proof (induction tbl)
  case Nil
  then show ?case by simp
next
  case (Cons x tbl)
  obtain t thr where x: "x = (t, thr)" by (cases x)
  have "t \<notin> fst ` set tbl" using Cons.prems by (simp add: x)
  then have "t \<notin> ctype ` set (collectCandidates g tbl)"
    unfolding collectCandidates_mem by force
  then show ?case using Cons by (simp add: x)
qed

lemma thresholds_distinct: "distinct (map fst thresholds)"
  by (simp add: thresholds_def)

lemma candidates_types:
  "ctype ` set (candidates f)
     = {t. \<exists>thr. (t, thr) \<in> set thresholds \<and> meetsThreshold (augmentedFactors f) thr}"
  by (simp add: candidates_def set_sortBy collectCandidates_types)

lemma candidates_distinct: "distinct (map ctype (candidates f))"
  by (simp add: candidates_def distinct_map_sortBy collectCandidates_distinct thresholds_distinct)

lemma candidates_score:
  "c \<in> set (candidates f)
   \<Longrightarrow> \<exists>thr. (ctype c, thr) \<in> set thresholds \<and> score c = calculateScore (augmentedFactors f) thr"
  using collectCandidates_score [of c "augmentedFactors f" thresholds]
  by (auto simp: candidates_def set_sortBy)

lemma candidates_sorted_sev: "sorted_wrt (\<lambda>a b. sev b \<le> sev a) (candidates f)"
  by (simp add: candidates_def sorted_sev_sortBy)

lemma candidates_numeric:
  assumes "numericFactors f" and "c \<in> set (candidates f)"
  shows "score c \<noteq> NaN"
proof -
  obtain thr where t: "(ctype c, thr) \<in> set thresholds"
      and s: "score c = calculateScore (augmentedFactors f) thr"
    using candidates_score [OF assms(2)] by blast
  have "wellformedThreshold thr"
    using thresholds_wellformed t by (auto simp: list_all_iff)
  then show ?thesis
    using calculateScore_Num [OF _ augmented_numeric [OF assms(1)]] s by simp
qed

lemma candidates_sorted_ranks:
  "numericFactors f \<Longrightarrow> sorted_wrt ranksBefore (candidates f)"
  using candidates_numeric [of f]
  by (simp add: candidates_def sorted_ranks_sortBy set_sortBy)

subsection \<open>The result of classify\<close>

lemma find_split:
  "find P xs = Some w \<Longrightarrow> \<exists>pre post. xs = pre @ w # post \<and> (\<forall>c \<in> set pre. \<not> P c) \<and> P w"
proof (induction xs)
  case Nil
  then show ?case by simp
next
  case (Cons x xs)
  show ?case
  proof (cases "P x")
    case True
    then have "x = w" using Cons.prems by simp
    then have "x # xs = [] @ w # xs \<and> (\<forall>c \<in> set []. \<not> P c) \<and> P w" using True by simp
    then show ?thesis by blast
  next
    case False
    then have "find P xs = Some w" using Cons.prems by simp
    then obtain pre post where "xs = pre @ w # post" "\<forall>c \<in> set pre. \<not> P c" "P w"
      using Cons.IH by blast
    then have "x # xs = (x # pre) @ w # post \<and> (\<forall>c \<in> set (x # pre). \<not> P c) \<and> P w"
      using False by simp
    then show ?thesis by blast
  qed
qed

lemma first_winter_top:
  assumes "find isWinter (candidates f) = Some w"
  shows "w \<in> set (candidates f) \<and> isWinter w
         \<and> (\<forall>c \<in> set (candidates f). isWinter c \<longrightarrow> sev c \<le> sev w)"
proof -
  obtain pre post where sp: "candidates f = pre @ w # post"
      and np: "\<forall>c \<in> set pre. \<not> isWinter c" and pw: "isWinter w"
    using find_split [OF assms] by blast
  have "sorted_wrt (\<lambda>a b. sev b \<le> sev a) (pre @ w # post)"
    using candidates_sorted_sev [of f] by (simp add: sp)
  then have "\<forall>c \<in> set post. sev c \<le> sev w"
    by (simp add: sorted_wrt_append)
  then have "\<forall>c \<in> set (candidates f). isWinter c \<longrightarrow> sev c \<le> sev w"
    using np by (auto simp: sp)
  then show ?thesis using pw by (simp add: sp)
qed

lemma classify_object:
  "\<exists>r. classify (JsObject f) = Inr r
     \<and> tempRegime r = getTemperatureRegime (f ''solarAngle'') (f ''fuel'')
     \<and> allCandidates r = map (\<lambda>c. (ctype c, toFixed3 (score c))) (take 5 (candidates f))
     \<and> primary r =
         (if tempRegime r = COLD \<or> tempRegime r = COOL
          then (case find isWinter (candidates f) of
                  None \<Rightarrow> (case candidates f of [] \<Rightarrow> FAIR | c # _ \<Rightarrow> ctype c)
                | Some w \<Rightarrow> if jgt (score w) (Num 0.3) then ctype w
                            else (case candidates f of [] \<Rightarrow> FAIR | c # _ \<Rightarrow> ctype c))
          else (case candidates f of [] \<Rightarrow> FAIR | c # _ \<Rightarrow> ctype c))"
  by (simp add: classify_def Let_def)

text \<open>
  Claim C4, as the code has it. The claim says that the candidate list of the result has
  an entry for every type that passed. With fuel 0.3, gradient 0.1, catalyst 0.2 and solar
  angle 0.5 nine types pass, DRIZZLE among them, and the result lists the first five only.
\<close>

theorem allCandidates_truncated:
  "map ctype (candidates
       (map_of [(''fuel'', Num 0.3), (''gradient'', Num 0.1), (''catalyst'', Num 0.2),
        (''solarAngle'', Num 0.5), (''inversionRatio'', Num (1 / 3))]))
     = [FREEZING_RAIN, WINTER_MIX, SNOW, SHOWERS, RAIN, DRIZZLE, FOG, PARTLY_CLOUDY, CLOUDY]
   \<and> map_of thresholds DRIZZLE = Some [(''fuel'', mnmx 0.15 0.35), (''gradient'', mx 0.15)]
   \<and> meetsThreshold (augmentedFactors
       (map_of [(''fuel'', Num 0.3), (''gradient'', Num 0.1), (''catalyst'', Num 0.2),
        (''solarAngle'', Num 0.5), (''inversionRatio'', Num (1 / 3))]))
       [(''fuel'', mnmx 0.15 0.35), (''gradient'', mx 0.15)]
   \<and> classify (JsObject
       (map_of [(''fuel'', Num 0.3), (''gradient'', Num 0.1), (''catalyst'', Num 0.2),
        (''solarAngle'', Num 0.5), (''inversionRatio'', Num (1 / 3))]))
     = Inr \<lparr>primary = FREEZING_RAIN, secondary = Some WINTER_MIX, confidence = Num (19 / 20),
            severity = 5, category = ''winter'', tempRegime = COOL,
            allCandidates = [(FREEZING_RAIN, Thousandths 950), (WINTER_MIX, Thousandths 825),
              (SNOW, Thousandths 117), (SHOWERS, Thousandths 117), (RAIN, Thousandths 89)]\<rparr>"
  by code_simp

text \<open>
  Claim C4, amended. The candidate list of the result holds the first five entries (at
  most) of the sorted list of passing candidates, each as the type with its score formatted
  to three decimals. The sorted list holds exactly the types whose thresholds matched, each
  once and with its match score, in descending order of severity and, on a numeric factor
  set, of score within one severity. So when at most five types pass, none is omitted.
\<close>

theorem classify_allCandidates:
  "\<exists>r. classify (JsObject f) = Inr r
     \<and> allCandidates r = map (\<lambda>c. (ctype c, toFixed3 (score c))) (take 5 (candidates f))
     \<and> ctype ` set (candidates f)
         = {t. \<exists>thr. (t, thr) \<in> set thresholds \<and> meetsThreshold (augmentedFactors f) thr}
     \<and> distinct (map ctype (candidates f))
     \<and> (\<forall>c \<in> set (candidates f). \<exists>thr. (ctype c, thr) \<in> set thresholds
            \<and> score c = calculateScore (augmentedFactors f) thr)
     \<and> sorted_wrt (\<lambda>a b. sev b \<le> sev a) (candidates f)
     \<and> (numericFactors f \<longrightarrow> sorted_wrt ranksBefore (candidates f))
     \<and> (length (candidates f) \<le> 5 \<longrightarrow>
          fst ` set (allCandidates r)
            = {t. \<exists>thr. (t, thr) \<in> set thresholds \<and> meetsThreshold (augmentedFactors f) thr})"
proof -
  obtain r where r: "classify (JsObject f) = Inr r"
      and a: "allCandidates r = map (\<lambda>c. (ctype c, toFixed3 (score c))) (take 5 (candidates f))"
    using classify_object [of f] by blast
  have "length (candidates f) \<le> 5 \<longrightarrow> fst ` set (allCandidates r) = ctype ` set (candidates f)"
    by (auto simp: a image_iff)
  then show ?thesis
    using r a candidates_types [of f] candidates_distinct [of f] candidates_score [of _ f]
      candidates_sorted_sev [of f] candidates_sorted_ranks [of f]
    by auto
qed

theorem classify_allCandidates_witness:
  "numericFactors
       (map_of [(''fuel'', Num 0.3), (''gradient'', Num 0.5), (''catalyst'', Num 0.5),
        (''solarAngle'', Num 0.9), (''inversionRatio'', Num 0.5)])
   \<and> length (candidates
       (map_of [(''fuel'', Num 0.3), (''gradient'', Num 0.5), (''catalyst'', Num 0.5),
        (''solarAngle'', Num 0.9), (''inversionRatio'', Num 0.5)])) \<le> 5
   \<and> (\<exists>r. classify (JsObject
       (map_of [(''fuel'', Num 0.3), (''gradient'', Num 0.5), (''catalyst'', Num 0.5),
        (''solarAngle'', Num 0.9), (''inversionRatio'', Num 0.5)])) = Inr r
        \<and> fst ` set (allCandidates r)
            = {t. \<exists>thr. (t, thr) \<in> set thresholds \<and> meetsThreshold (augmentedFactors
       (map_of [(''fuel'', Num 0.3), (''gradient'', Num 0.5), (''catalyst'', Num 0.5),
        (''solarAngle'', Num 0.9), (''inversionRatio'', Num 0.5)])) thr})
   \<and> sorted_wrt ranksBefore (candidates
       (map_of [(''fuel'', Num 0.3), (''gradient'', Num 0.5), (''catalyst'', Num 0.5),
        (''solarAngle'', Num 0.9), (''inversionRatio'', Num 0.5)]))"
proof -
  let ?g = "map_of [(''fuel'', Num 0.3), (''gradient'', Num 0.5), (''catalyst'', Num 0.5),
        (''solarAngle'', Num 0.9), (''inversionRatio'', Num 0.5)]"
  have h1: "numericFactors ?g" by (simp add: numericFactors_def)
  have h2: "length (candidates ?g) \<le> 5" by code_simp
  show ?thesis using h1 h2 classify_allCandidates [of ?g] by blast
qed

text \<open>
  Claim C5, as the code has it. The claim says that in a COLD or COOL regime any passing
  winter candidate with a score above 0.3 becomes primary. The code looks at the first
  winter candidate of the sorted list only. With fuel 0.4, gradient 1, catalyst 0.6, solar
  angle 0.3 and inversion ratio 1.5 the regime is COLD and WINTER_STORM passes with score
  11/24, but the first winter candidate is BOMB_CYCLONE with score 1/18, so the primary
  type stays SEVERE_TSTORM.
\<close>

theorem winter_override_first_only:
  "map ctype (candidates
       (map_of [(''fuel'', Num 0.4), (''gradient'', Num 1), (''catalyst'', Num 0.6),
        (''solarAngle'', Num 0.3), (''inversionRatio'', Num 1.5)]))
     = [SEVERE_TSTORM, BOMB_CYCLONE, WINTER_STORM, HIGH_WIND, RAIN, PARTLY_CLOUDY]
   \<and> map score (candidates
       (map_of [(''fuel'', Num 0.4), (''gradient'', Num 1), (''catalyst'', Num 0.6),
        (''solarAngle'', Num 0.3), (''inversionRatio'', Num 1.5)]))
     = [Num (19581 / 25000), Num (1 / 18), Num (11 / 24), Num (9 / 13), Num (5 / 8), Num (1 / 2)]
   \<and> meta.category (weatherMeta WINTER_STORM) = ''winter''
   \<and> jgt (Num (11 / 24)) (Num 0.3)
   \<and> meta.category (weatherMeta SEVERE_TSTORM) = ''severe''
   \<and> classify (JsObject
       (map_of [(''fuel'', Num 0.4), (''gradient'', Num 1), (''catalyst'', Num 0.6),
        (''solarAngle'', Num 0.3), (''inversionRatio'', Num 1.5)]))
     = Inr \<lparr>primary = SEVERE_TSTORM, secondary = Some BOMB_CYCLONE,
            confidence = Num (19581 / 25000), severity = 8, category = ''severe'',
            tempRegime = COLD,
            allCandidates = [(SEVERE_TSTORM, Thousandths 783), (BOMB_CYCLONE, Thousandths 56),
              (WINTER_STORM, Thousandths 458), (HIGH_WIND, Thousandths 692),
              (RAIN, Thousandths 625)]\<rparr>"
  by code_simp

text \<open>
  Claim C5, amended. classify selects the primary type in two passes. First the passing
  candidates are sorted by descending severity (and, on a numeric factor set, by descending
  score within one severity), so the more severe of two passing types precedes whatever
  the scores. Second, if the regime is COLD or COOL and the first winter candidate of the
  sorted list, which is a winter candidate of the highest severity, has a score above 0.3,
  that candidate becomes primary, even when a non-winter candidate was ranked before it.
  In every other case the first candidate of the sorted list is primary (FAIR when the
  list is empty).
\<close>

theorem classify_primary_two_pass:
  "\<exists>r. classify (JsObject f) = Inr r
     \<and> tempRegime r = getTemperatureRegime (f ''solarAngle'') (f ''fuel'')
     \<and> sorted_wrt (\<lambda>a b. sev b \<le> sev a) (candidates f)
     \<and> (numericFactors f \<longrightarrow> sorted_wrt ranksBefore (candidates f))
     \<and> (\<forall>w. find isWinter (candidates f) = Some w \<longrightarrow>
            w \<in> set (candidates f) \<and> isWinter w
            \<and> (\<forall>c \<in> set (candidates f). isWinter c \<longrightarrow> sev c \<le> sev w))
     \<and> (\<forall>w. (tempRegime r = COLD \<or> tempRegime r = COOL)
              \<and> find isWinter (candidates f) = Some w \<and> jgt (score w) (Num 0.3)
            \<longrightarrow> primary r = ctype w)
     \<and> ((tempRegime r \<noteq> COLD \<and> tempRegime r \<noteq> COOL)
          \<or> (\<forall>w. find isWinter (candidates f) = Some w \<longrightarrow> \<not> jgt (score w) (Num 0.3))
            \<longrightarrow> primary r = (case candidates f of [] \<Rightarrow> FAIR | c # _ \<Rightarrow> ctype c))"
proof -
  obtain r where r: "classify (JsObject f) = Inr r"
      and t: "tempRegime r = getTemperatureRegime (f ''solarAngle'') (f ''fuel'')"
      and p: "primary r =
         (if tempRegime r = COLD \<or> tempRegime r = COOL
          then (case find isWinter (candidates f) of
                  None \<Rightarrow> (case candidates f of [] \<Rightarrow> FAIR | c # _ \<Rightarrow> ctype c)
                | Some w \<Rightarrow> if jgt (score w) (Num 0.3) then ctype w
                            else (case candidates f of [] \<Rightarrow> FAIR | c # _ \<Rightarrow> ctype c))
          else (case candidates f of [] \<Rightarrow> FAIR | c # _ \<Rightarrow> ctype c))"
    using classify_object [of f] by blast
  have a: "\<forall>w. (tempRegime r = COLD \<or> tempRegime r = COOL)
              \<and> find isWinter (candidates f) = Some w \<and> jgt (score w) (Num 0.3)
            \<longrightarrow> primary r = ctype w"
    using p by auto
  have b: "(tempRegime r \<noteq> COLD \<and> tempRegime r \<noteq> COOL)
          \<or> (\<forall>w. find isWinter (candidates f) = Some w \<longrightarrow> \<not> jgt (score w) (Num 0.3))
            \<longrightarrow> primary r = (case candidates f of [] \<Rightarrow> FAIR | c # _ \<Rightarrow> ctype c)"
    using p by (cases "find isWinter (candidates f)") auto
  show ?thesis
    using r t a b candidates_sorted_sev [of f] candidates_sorted_ranks [of f] first_winter_top [of f]
    by blast
qed

theorem classify_primary_two_pass_witness:
  "numericFactors
       (map_of [(''fuel'', Num 0.4), (''gradient'', Num 1), (''catalyst'', Num 0.5),
        (''solarAngle'', Num 0.3), (''inversionRatio'', Num 1.25)])
   \<and> getTemperatureRegime (Some (Num 0.3)) (Some (Num 0.4)) = COLD
   \<and> map_option ctype (find isWinter (candidates
       (map_of [(''fuel'', Num 0.4), (''gradient'', Num 1), (''catalyst'', Num 0.5),
        (''solarAngle'', Num 0.3), (''inversionRatio'', Num 1.25)]))) = Some WINTER_STORM
   \<and> map ctype (candidates
       (map_of [(''fuel'', Num 0.4), (''gradient'', Num 1), (''catalyst'', Num 0.5),
        (''solarAngle'', Num 0.3), (''inversionRatio'', Num 1.25)]))
       = [SEVERE_TSTORM, WINTER_STORM, HIGH_WIND, RAIN, PARTLY_CLOUDY]
   \<and> (\<exists>r. classify (JsObject
       (map_of [(''fuel'', Num 0.4), (''gradient'', Num 1), (''catalyst'', Num 0.5),
        (''solarAngle'', Num 0.3), (''inversionRatio'', Num 1.25)])) = Inr r \<and> primary r = WINTER_STORM)
   \<and> (\<exists>r. classify (JsObject
       (map_of [(''fuel'', Num 0.4), (''gradient'', Num 1), (''catalyst'', Num 0.6),
        (''solarAngle'', Num 0.3), (''inversionRatio'', Num 1.5)])) = Inr r \<and> primary r = SEVERE_TSTORM)"
proof -
  let ?g = "map_of [(''fuel'', Num 0.4), (''gradient'', Num 1), (''catalyst'', Num 0.5),
        (''solarAngle'', Num 0.3), (''inversionRatio'', Num 1.25)]"
  let ?f = "map_of [(''fuel'', Num 0.4), (''gradient'', Num 1), (''catalyst'', Num 0.6),
        (''solarAngle'', Num 0.3), (''inversionRatio'', Num 1.5)]"
  have n: "numericFactors ?g" by (simp add: numericFactors_def)
  have c: "getTemperatureRegime (Some (Num 0.3)) (Some (Num 0.4)) = COLD" by code_simp
  have cs: "map ctype (candidates ?g) = [SEVERE_TSTORM, WINTER_STORM, HIGH_WIND, RAIN, PARTLY_CLOUDY]"
    by code_simp
  have wg: "map_option (\<lambda>w. (ctype w, jgt (score w) (Num 0.3))) (find isWinter (candidates ?g))
              = Some (WINTER_STORM, True)"
    by code_simp
  have wf: "map_option (\<lambda>w. jgt (score w) (Num 0.3)) (find isWinter (candidates ?f)) = Some False"
    by code_simp
  have hf: "map ctype (take 1 (candidates ?f)) = [SEVERE_TSTORM]"
    by code_simp
  obtain w where w: "find isWinter (candidates ?g) = Some w" "ctype w = WINTER_STORM"
      "jgt (score w) (Num 0.3)"
    using wg by (cases "find isWinter (candidates ?g)") auto
  obtain r where r: "classify (JsObject ?g) = Inr r"
      "tempRegime r = getTemperatureRegime (?g ''solarAngle'') (?g ''fuel'')"
      "\<forall>w. (tempRegime r = COLD \<or> tempRegime r = COOL)
              \<and> find isWinter (candidates ?g) = Some w \<and> jgt (score w) (Num 0.3)
            \<longrightarrow> primary r = ctype w"
    using classify_primary_two_pass [of ?g] by blast
  have "tempRegime r = COLD" using r(2) c by simp
  then have pg: "primary r = WINTER_STORM" using r(3) w by auto
  obtain r' where r': "classify (JsObject ?f) = Inr r'"
      "(tempRegime r' \<noteq> COLD \<and> tempRegime r' \<noteq> COOL)
          \<or> (\<forall>w. find isWinter (candidates ?f) = Some w \<longrightarrow> \<not> jgt (score w) (Num 0.3))
            \<longrightarrow> primary r' = (case candidates ?f of [] \<Rightarrow> FAIR | c # _ \<Rightarrow> ctype c)"
    using classify_primary_two_pass [of ?f] by blast
  have "\<forall>w. find isWinter (candidates ?f) = Some w \<longrightarrow> \<not> jgt (score w) (Num 0.3)"
    using wf by auto
  then have "primary r' = (case candidates ?f of [] \<Rightarrow> FAIR | c # _ \<Rightarrow> ctype c)"
    using r'(2) by blast
  then have pf: "primary r' = SEVERE_TSTORM"
    using hf by (cases "candidates ?f") simp_all
  show ?thesis
    using n c cs w(1,2) r(1) pg r'(1) pf by auto
qed

subsection \<open>Missing factors\<close>




section \<open>Properties of the engine\<close>

subsection \<open>The factor functions on numbers\<close>

lemma region_in_table:
  assumes "region \<in> fst ` set REGIONAL_FUEL"
  shows "\<exists>r. getRegion region = Own r \<and> map_of REGIONAL_FUEL region = Some r
            \<and> baseFuel region = r_fuel r \<and> baseGradient region = r_gradient r
            \<and> 0 < r_fuel r \<and> r_fuel r \<le> 1 \<and> 0 < r_gradient r \<and> r_gradient r \<le> 1"
proof -
  have "region \<in> {''gulf_coast'', ''dixie_alley'', ''tornado_alley'', ''southern_plains'',
      ''midwest'', ''northern_plains'', ''northeast'', ''southeast'', ''pacific_nw'', ''southwest''}"
    using assms by (simp add: REGIONAL_FUEL_def)
  then show ?thesis
    by (elim insertE emptyE)
       (simp_all add: getRegion_def baseFuel_def baseGradient_def REGIONAL_FUEL_def)
qed

lemma getEFuel_value:
  "getEFuel region (Some (Num off)) = Num (min 1 (baseFuel region * (1 + (1 + off) * (1 / 10))))"
  by (simp add: getEFuel_def Let_def GULF_SST_CURRENT_def GULF_SST_BASELINE_def
        WARMING_COEFFICIENT_def)

lemma getGradient_value:
  "getGradient region (Some (Num off))
     = Num (max 0 (baseGradient region * (1 - off * (3 / 10) * (1 / 10))))"
  by (simp add: getGradient_def Let_def ARCTIC_DAMPING_def)

lemma getCatalyst_value:
  "getCatalyst (Num d) = Num \<bar>cos (2 * pi * (d - 80) / 365.25)\<bar>"
  by (simp add: getCatalyst_def Let_def SPRING_EQUINOX_DOY_def DAYS_PER_YEAR_def)

lemma getSolarAngle_value:
  "getSolarAngle (Some (Num lat)) (Num d)
     = Num (max 0 (cos (lat * pi / 180 - 23.44 * sin (2 * pi * (d - 81) / 365.25) * pi / 180)))"
proof -
  let ?a = "lat * pi / 180"
  let ?b = "23.44 * sin (2 * pi * (d - 81) / 365.25) * pi / 180"
  have e: "sin ?a * sin ?b + cos ?a * cos ?b = cos (?a - ?b)"
    by (simp add: cos_diff)
  have r: "- 1 \<le> cos (?a - ?b) \<and> cos (?a - ?b) \<le> 1" by simp
  have "getSolarAngle (Some (Num lat)) (Num d)
          = jmax (Num 0) (jsin (jasin (Num (sin ?a * sin ?b + cos ?a * cos ?b))))"
    by (simp add: getSolarAngle_def Let_def EARTH_TILT_def DAYS_PER_YEAR_def)
  also have "\<dots> = jmax (Num 0) (jsin (jasin (Num (cos (?a - ?b)))))"
    by (simp only: e)
  also have "\<dots> = Num (max 0 (cos (?a - ?b)))"
    using r by simp
  finally show ?thesis .
qed

lemma calc_getSolarAngle_value:
  "calc_getSolarAngle (Num d) (Num lat)
     = Num (max 0 (min 1 (cos (lat * pi / 180 - 23.45 * sin (2 * pi / 365.25 * (d - 81)) * pi / 180))))"
proof -
  let ?a = "lat * pi / 180"
  let ?b = "23.45 * sin (2 * pi / 365.25 * (d - 81)) * pi / 180"
  have e: "sin ?a * sin ?b + cos ?a * cos ?b = cos (?a - ?b)"
    by (simp add: cos_diff)
  have "calc_getSolarAngle (Num d) (Num lat)
          = Num (max 0 (min 1 (sin ?a * sin ?b + cos ?a * cos ?b)))"
    by (simp add: calc_getSolarAngle_def calc_getSolarDeclination_def Let_def)
  then show ?thesis by (simp only: e)
qed

lemma calc_getCatalyst_value:
  "calc_getCatalyst (Num d) = Num (catalystScale * \<bar>cos (2 * pi * (d - 80) / 365.25)\<bar>)"
  by (simp add: calc_getCatalyst_def Let_def catalystScale_def abs_mult)

subsection \<open>The solar angle\<close>

text \<open>
  Claim C10 fails on the code. In exact arithmetic the argument of the arcsine is
  \<open>cos (lat - decl)\<close> (\<open>getSolarAngle_value\<close> above), but the program computes it in
  doubles and does not clamp it: for the latitude \<open>0.4032049278040263\<close>, the declination
  of day 82, the sum of the two products rounds to \<open>1.0000000000000002\<close>. From there on
  the two copies differ, as the lemma below shows at that value: the engine's
  \<open>Math.max(0, Math.sin(Math.asin(s)))\<close> is NaN, and the calculator's
  \<open>Math.max(0, Math.min(1, s))\<close> is \<open>1\<close>.
\<close>

lemma solar_angle_tail_above_one:
  "jmax (Num 0) (jsin (jasin (Num (1 + 1 / 2 ^ 52)))) = NaN
   \<and> jmax (Num 0) (jmin (Num 1) (Num (1 + 1 / 2 ^ 52))) = Num 1"
  by simp

subsection \<open>Factors and indices\<close>

lemma infer_known:
  assumes "getRegion region = Own r"
  shows "\<exists>res. infer region (Num d) (Some (Num off)) = Inr res
     \<and> i_fuel res = getEFuel region (Some (Num off))
     \<and> i_gradient res = getGradient region (Some (Num off))
     \<and> i_catalyst res = getCatalyst (Num d)
     \<and> i_solarAngle res = getSolarAngle (Some (Num (r_lat r))) (Num d)
     \<and> i_probability res = getProbability (i_fuel res) (i_catalyst res) (i_solarAngle res)
     \<and> i_volatility res = getVolatility (i_gradient res) (i_catalyst res) (i_solarAngle res)
     \<and> i_danger res = getDangerIndex (i_fuel res) (i_gradient res) (i_catalyst res)
                         (i_solarAngle res)"
  using assms by (simp add: infer_def Let_def classifyStorm_def)

lemma unit_mult: "0 \<le> a \<Longrightarrow> a \<le> 1 \<Longrightarrow> 0 \<le> b \<Longrightarrow> b \<le> 1 \<Longrightarrow> 0 \<le> a * b \<and> a * b \<le> (1::real)"
  by (simp add: mult_le_one)

text \<open>
  Claim C8. For a region of the table, any day and a climate offset that is not negative,
  infer returns a prediction whose four factors are numbers in \<open>[0, 1]\<close>, and whose
  indices are the stated products, which then lie in \<open>[0, 1]\<close> too.
\<close>

theorem factors_and_indices_unit:
  assumes "region \<in> fst ` set REGIONAL_FUEL" and "0 \<le> off"
  shows "\<exists>r fu gr ca sa.
      infer region (Num d) (Some (Num off)) = Inr r
    \<and> i_fuel r = Num fu \<and> 0 \<le> fu \<and> fu \<le> 1
    \<and> i_gradient r = Num gr \<and> 0 \<le> gr \<and> gr \<le> 1
    \<and> i_catalyst r = Num ca \<and> 0 \<le> ca \<and> ca \<le> 1
    \<and> i_solarAngle r = Num sa \<and> 0 \<le> sa \<and> sa \<le> 1
    \<and> i_probability r = Num (fu * ca * sa) \<and> 0 \<le> fu * ca * sa \<and> fu * ca * sa \<le> 1
    \<and> i_volatility r = Num (gr * ca * sa) \<and> 0 \<le> gr * ca * sa \<and> gr * ca * sa \<le> 1
    \<and> i_danger r = Num (fu * gr * ca ^ 2 * sa ^ 2)
    \<and> 0 \<le> fu * gr * ca ^ 2 * sa ^ 2 \<and> fu * gr * ca ^ 2 * sa ^ 2 \<le> 1"
proof -
  obtain rd where rd: "getRegion region = Own rd" "baseFuel region = r_fuel rd"
      "baseGradient region = r_gradient rd" "0 < r_fuel rd" "r_fuel rd \<le> 1"
      "0 < r_gradient rd" "r_gradient rd \<le> 1"
    using region_in_table [OF assms(1)] by blast
  define fu where "fu = min 1 (baseFuel region * (1 + (1 + off) * (1 / 10)))"
  define gr where "gr = max 0 (baseGradient region * (1 - off * (3 / 10) * (1 / 10)))"
  define ca where "ca = \<bar>cos (2 * pi * (d - 80) / 365.25)\<bar>"
  define sa where "sa = max 0 (cos (r_lat rd * pi / 180
                     - 23.44 * sin (2 * pi * (d - 81) / 365.25) * pi / 180))"
  have f: "getEFuel region (Some (Num off)) = Num fu"
    by (simp add: getEFuel_value fu_def)
  have g: "getGradient region (Some (Num off)) = Num gr"
    by (simp add: getGradient_value gr_def)
  have c: "getCatalyst (Num d) = Num ca"
    by (simp add: getCatalyst_value ca_def)
  have s: "getSolarAngle (Some (Num (r_lat rd))) (Num d) = Num sa"
    by (simp add: getSolarAngle_value sa_def)
  have "0 \<le> r_fuel rd * (1 + (1 + off) * (1 / 10))"
    using rd(4) assms(2) by simp
  then have fb: "0 \<le> fu \<and> fu \<le> 1"
    by (simp add: fu_def rd(2))
  have "r_gradient rd * (1 - off * (3 / 10) * (1 / 10)) \<le> r_gradient rd * 1"
    using rd(6) assms(2) by (intro mult_left_mono) simp_all
  then have gb: "0 \<le> gr \<and> gr \<le> 1"
    using rd(7) by (simp add: gr_def rd(3))
  have cb: "0 \<le> ca \<and> ca \<le> 1" by (simp add: ca_def)
  have sb: "0 \<le> sa \<and> sa \<le> 1" by (simp add: sa_def)
  have c2: "0 \<le> ca ^ 2 \<and> ca ^ 2 \<le> 1" using cb by (simp add: power_le_one)
  have s2: "0 \<le> sa ^ 2 \<and> sa ^ 2 \<le> 1" using sb by (simp add: power_le_one)
  have fc: "0 \<le> fu * ca \<and> fu * ca \<le> 1" using fb cb by (simp add: unit_mult)
  have gc: "0 \<le> gr * ca \<and> gr * ca \<le> 1" using gb cb by (simp add: unit_mult)
  have fg: "0 \<le> fu * gr \<and> fu * gr \<le> 1" using fb gb by (simp add: unit_mult)
  have fgc: "0 \<le> fu * gr * ca ^ 2 \<and> fu * gr * ca ^ 2 \<le> 1" using fg c2 by (simp add: unit_mult)
  have p: "0 \<le> fu * ca * sa \<and> fu * ca * sa \<le> 1" using fc sb by (simp add: unit_mult)
  have v: "0 \<le> gr * ca * sa \<and> gr * ca * sa \<le> 1" using gc sb by (simp add: unit_mult)
  have dg: "0 \<le> fu * gr * ca ^ 2 * sa ^ 2 \<and> fu * gr * ca ^ 2 * sa ^ 2 \<le> 1"
    using fgc s2 by (simp add: unit_mult)
  obtain r where r: "infer region (Num d) (Some (Num off)) = Inr r"
      and sel0: "i_fuel r = getEFuel region (Some (Num off))"
        "i_gradient r = getGradient region (Some (Num off))"
        "i_catalyst r = getCatalyst (Num d)"
        "i_solarAngle r = getSolarAngle (Some (Num (r_lat rd))) (Num d)"
        "i_probability r = getProbability (i_fuel r) (i_catalyst r) (i_solarAngle r)"
        "i_volatility r = getVolatility (i_gradient r) (i_catalyst r) (i_solarAngle r)"
        "i_danger r = getDangerIndex (i_fuel r) (i_gradient r) (i_catalyst r) (i_solarAngle r)"
    using infer_known [OF rd(1), of d off] by blast
  have sel: "i_fuel r = Num fu" "i_gradient r = Num gr" "i_catalyst r = Num ca"
        "i_solarAngle r = Num sa" "i_probability r = Num (fu * ca * sa)"
        "i_volatility r = Num (gr * ca * sa)" "i_danger r = Num (fu * gr * ca ^ 2 * sa ^ 2)"
    by (simp_all add: sel0 f g c s getProbability_def getVolatility_def getDangerIndex_def)
  show ?thesis
    using r sel fb gb cb sb p v dg by blast
qed

theorem factors_and_indices_unit_witness:
  "''tornado_alley'' \<in> fst ` set REGIONAL_FUEL \<and> (0::real) \<le> 2
   \<and> (\<exists>r fu gr ca sa.
      infer ''tornado_alley'' (Num 105) (Some (Num 2)) = Inr r
    \<and> i_fuel r = Num fu \<and> 0 \<le> fu \<and> fu \<le> 1
    \<and> i_gradient r = Num gr \<and> 0 \<le> gr \<and> gr \<le> 1
    \<and> i_catalyst r = Num ca \<and> 0 \<le> ca \<and> ca \<le> 1
    \<and> i_solarAngle r = Num sa \<and> 0 \<le> sa \<and> sa \<le> 1
    \<and> i_probability r = Num (fu * ca * sa) \<and> 0 \<le> fu * ca * sa \<and> fu * ca * sa \<le> 1
    \<and> i_volatility r = Num (gr * ca * sa) \<and> 0 \<le> gr * ca * sa \<and> gr * ca * sa \<le> 1
    \<and> i_danger r = Num (fu * gr * ca ^ 2 * sa ^ 2)
    \<and> 0 \<le> fu * gr * ca ^ 2 * sa ^ 2 \<and> fu * gr * ca ^ 2 * sa ^ 2 \<le> 1)"
proof -
  have h1: "''tornado_alley'' \<in> fst ` set REGIONAL_FUEL" by (simp add: REGIONAL_FUEL_def)
  have h2: "(0::real) \<le> 2" by simp
  show ?thesis
    using h1 h2 factors_and_indices_unit [OF h1 h2, of 105] by blast
qed

subsection \<open>The climate offset\<close>

text \<open>
  Claim C3, as the code has it. The claim says that a larger offset gives a strictly
  larger fuel and a smaller gradient. Both functions clamp: on the Gulf coast the fuel is
  \<open>1\<close> at offset \<open>0\<close> and at offset \<open>1\<close>, and the gradient is \<open>0\<close> at the
  offsets \<open>34\<close> and \<open>35\<close>, in exact arithmetic and in doubles alike.
\<close>

theorem fuel_gradient_clamped:
  "getEFuel ''gulf_coast'' (Some (Num 0)) = Num 1
   \<and> getEFuel ''gulf_coast'' (Some (Num 1)) = Num 1
   \<and> getGradient ''gulf_coast'' (Some (Num 34)) = Num 0
   \<and> getGradient ''gulf_coast'' (Some (Num 35)) = Num 0"
  by (simp add: getEFuel_value getGradient_value baseFuel_def baseGradient_def getRegion_def
        REGIONAL_FUEL_def)

text \<open>
  Claim C3, amended. For a region of the table and offsets \<open>0 \<le> o1 < o2\<close> the fuel of
  the larger offset is not below the fuel of the smaller one, and its gradient is not above
  the gradient of the smaller one. Neither function reads the day. No strict change is
  stated: the clamps remove it at \<open>1\<close> and at \<open>0\<close>, and rounding removes it for
  offsets that are close together.
\<close>

theorem fuel_gradient_monotone:
  assumes "region \<in> fst ` set REGIONAL_FUEL" and "0 \<le> o1" and "o1 < o2"
  shows "\<exists>f1 f2 g1 g2.
      getEFuel region (Some (Num o1)) = Num f1 \<and> getEFuel region (Some (Num o2)) = Num f2
    \<and> f1 \<le> f2
    \<and> getGradient region (Some (Num o1)) = Num g1 \<and> getGradient region (Some (Num o2)) = Num g2
    \<and> g2 \<le> g1"
proof -
  obtain rd where rd0: "getRegion region = Own rd" and rd: "baseFuel region = r_fuel rd"
      "baseGradient region = r_gradient rd" "0 < r_fuel rd" "0 < r_gradient rd"
    using region_in_table [OF assms(1)] by blast
  let ?a1 = "r_fuel rd * (1 + (1 + o1) * (1 / 10))"
  let ?a2 = "r_fuel rd * (1 + (1 + o2) * (1 / 10))"
  let ?b1 = "r_gradient rd * (1 - o1 * (3 / 10) * (1 / 10))"
  let ?b2 = "r_gradient rd * (1 - o2 * (3 / 10) * (1 / 10))"
  have a: "?a1 \<le> ?a2"
    using rd(3) assms(3) by (intro mult_left_mono) simp_all
  have b: "?b2 \<le> ?b1"
    using rd(4) assms(3) by (intro mult_left_mono) simp_all
  have fm: "min 1 ?a1 \<le> min 1 ?a2"
    using a by (auto simp: min_def)
  have gm: "max 0 ?b2 \<le> max 0 ?b1"
    using b by (auto simp: max_def)
  show ?thesis
    using fm gm by (simp add: getEFuel_value getGradient_value rd(1,2))
qed

theorem fuel_gradient_monotone_witness:
  "''tornado_alley'' \<in> fst ` set REGIONAL_FUEL \<and> (0::real) \<le> 0 \<and> (0::real) < 1
   \<and> (\<exists>f1 f2 g1 g2.
      getEFuel ''tornado_alley'' (Some (Num 0)) = Num f1
    \<and> getEFuel ''tornado_alley'' (Some (Num 1)) = Num f2
    \<and> f1 \<le> f2
    \<and> getGradient ''tornado_alley'' (Some (Num 0)) = Num g1
    \<and> getGradient ''tornado_alley'' (Some (Num 1)) = Num g2
    \<and> g2 \<le> g1)"
proof -
  have h1: "''tornado_alley'' \<in> fst ` set REGIONAL_FUEL" by (simp add: REGIONAL_FUEL_def)
  have h2: "(0::real) \<le> 0" by simp
  have h3: "(0::real) < 1" by simp
  show ?thesis
    using h1 h2 h3 fuel_gradient_monotone [OF h1 h2 h3] by blast
qed

subsection \<open>Region keys\<close>

text \<open>
  A key that is neither in the table nor inherited gets the error result, and a key of the
  table gets a prediction (\<open>infer_known\<close> above).
\<close>

lemma infer_unknown:
  "getRegion region = Missing \<Longrightarrow> infer region d off = Inl (UnknownRegion region)"
  by (simp add: infer_def)

text \<open>
  Claim C7 fails on the code. The key \<open>constructor\<close> is not in the region table, but
  the lookup finds the inherited property, the guard \<open>!regionData\<close> does not fire, and
  infer returns a prediction without an error: the latitude is undefined, the solar angle
  and the indices are NaN, and the prediction is STABLE.
\<close>

theorem infer_inherited_key:
  "''constructor'' \<notin> fst ` set REGIONAL_FUEL
   \<and> getRegion ''constructor'' = Inherited
   \<and> infer ''constructor'' (Num 100) None =
      Inr \<lparr>i_region = ''constructor'',
           i_latitude = None,
           i_dayOfYear = Num 100,
           i_climateOffset = Num 0,
           i_fuel = Num (11 / 20),
           i_gradient = Num (1 / 2),
           i_catalyst = getCatalyst (Num 100),
           i_solarAngle = NaN,
           i_solarPunch = NaN,
           i_probability = NaN,
           i_volatility = NaN,
           i_danger = NaN,
           i_prediction = \<lparr>s_type = ''STABLE'', s_probability = Num 0, s_severity = None\<rparr>,
           i_alternatives = []\<rparr>"
proof -
  have k: "''constructor'' \<notin> fst ` set REGIONAL_FUEL" by (simp add: REGIONAL_FUEL_def)
  have g: "getRegion ''constructor'' = Inherited"
    by (simp add: getRegion_def REGIONAL_FUEL_def objectPrototypeKeys_def)
  have f: "getEFuel ''constructor'' None = Num (11 / 20)"
    by (simp add: getEFuel_def Let_def baseFuel_def g GULF_SST_CURRENT_def
          GULF_SST_BASELINE_def WARMING_COEFFICIENT_def)
  have gr: "getGradient ''constructor'' None = Num (1 / 2)"
    by (simp add: getGradient_def Let_def baseGradient_def g ARCTIC_DAMPING_def)
  have s: "getSolarAngle None (Num 100) = NaN"
    by (simp add: getSolarAngle_def Let_def)
  obtain ca where c: "getCatalyst (Num 100) = Num ca"
    by (simp add: getCatalyst_value)
  have cl: "classifyStorm (Num (11 / 20)) (Num (1 / 2)) (Num ca) NaN =
      \<lparr>sc_primary = \<lparr>s_type = ''STABLE'', s_probability = Num 0, s_severity = None\<rparr>,
       sc_secondary = None, sc_all = [], sc_probability = NaN, sc_volatility = NaN,
       sc_danger = NaN\<rparr>"
    by (simp add: classifyStorm_def stormResults_def Let_def getProbability_def
          getVolatility_def getDangerIndex_def jgt_def)
  show ?thesis
    using k g by (simp add: infer_def Let_def f gr s c cl getSolarPunch_def)
qed

subsection \<open>The catalyst\<close>

lemma sin_coeff_small:
  "sin_coeff 0 = 0" "sin_coeff (Suc 0) = 1" "sin_coeff 2 = 0" "sin_coeff 3 = - 1 / 6"
  "sin_coeff 4 = 0"
  by (simp_all add: sin_coeff_def fact_numeral)

lemma sin_taylor5: "\<bar>sin x - (x - x ^ 3 / 6)\<bar> \<le> \<bar>x\<bar> ^ 5 / 120" for x :: real
proof -
  have s: "{..<5::nat} = {0, 1, 2, 3, 4}" by auto
  have p: "(\<Sum>m<5. sin_coeff m * x ^ m) = x - x ^ 3 / 6"
    unfolding s by (simp add: sin_coeff_small)
  have f: "inverse (fact 5) = (1 / 120 :: real)"
    by (simp add: fact_numeral)
  have "\<bar>sin x - (x - x ^ 3 / 6)\<bar> \<le> 1 / 120 * \<bar>x\<bar> ^ 5"
    using Maclaurin_sin_bound [of x 5] unfolding p f .
  then show ?thesis by simp
qed

lemma sin_lower: "0 \<le> x \<Longrightarrow> x - x ^ 3 / 6 - x ^ 5 / 120 \<le> sin x" for x :: real
proof -
  assume "0 \<le> x"
  then have "\<bar>sin x - (x - x ^ 3 / 6)\<bar> \<le> x ^ 5 / 120"
    using sin_taylor5 [of x] by simp
  then show ?thesis by linarith
qed

lemma sin_upper: "0 \<le> x \<Longrightarrow> sin x \<le> x - x ^ 3 / 6 + x ^ 5 / 120" for x :: real
proof -
  assume "0 \<le> x"
  then have "\<bar>sin x - (x - x ^ 3 / 6)\<bar> \<le> x ^ 5 / 120"
    using sin_taylor5 [of x] by simp
  then show ?thesis by linarith
qed

lemma cos_lower: "1 - x\<^sup>2 / 2 \<le> cos x" for x :: real
proof -
  have "\<bar>sin (x / 2)\<bar> \<le> \<bar>x / 2\<bar>" by (rule abs_sin_x_le_abs_x)
  then have "\<bar>sin (x / 2)\<bar> ^ 2 \<le> \<bar>x / 2\<bar> ^ 2" by (intro power_mono) simp_all
  then have "(sin (x / 2))\<^sup>2 \<le> x\<^sup>2 / 4" by (simp add: power_divide)
  moreover have "cos x = 1 - 2 * (sin (x / 2))\<^sup>2"
    using cos_double_sin [of "x / 2"] by simp
  ultimately show ?thesis by simp
qed

lemma up_step:
  fixes x u :: real
  assumes "0 \<le> x" "x \<le> u" "x - x ^ 3 / 6 - x ^ 5 / 120 \<le> 1 / 2"
    and c: "0 < 1 - u\<^sup>2 / 6 - u ^ 4 / 120"
  shows "x \<le> (1 / 2) / (1 - u\<^sup>2 / 6 - u ^ 4 / 120)"
proof -
  let ?c = "1 - u\<^sup>2 / 6 - u ^ 4 / 120"
  have "x\<^sup>2 \<le> u\<^sup>2" "x ^ 4 \<le> u ^ 4" using assms(1,2) by (simp_all add: power_mono)
  then have "?c \<le> 1 - x\<^sup>2 / 6 - x ^ 4 / 120" by simp
  then have "x * ?c \<le> x * (1 - x\<^sup>2 / 6 - x ^ 4 / 120)"
    using assms(1) by (rule mult_left_mono)
  also have "\<dots> = x - x ^ 3 / 6 - x ^ 5 / 120"
    by (simp add: algebra_simps power2_eq_square power3_eq_cube power4_eq_xxxx eval_nat_numeral)
  finally have "x * ?c \<le> 1 / 2" using assms(3) by simp
  moreover have "(x \<le> (1 / 2) / ?c) = (x * ?c \<le> 1 / 2)"
    using c by (rule pos_le_divide_eq)
  ultimately show ?thesis by (simp only:)
qed

lemma low_step:
  fixes x l u :: real
  assumes "0 \<le> l" "l \<le> x" "x \<le> u" "1 / 2 \<le> x - x ^ 3 / 6 + x ^ 5 / 120"
  shows "1 / 2 + l ^ 3 / 6 - u ^ 5 / 120 \<le> x"
proof -
  have "l ^ 3 \<le> x ^ 3" using assms(1,2) by (simp add: power_mono)
  moreover have "x ^ 5 \<le> u ^ 5" using assms(1,2,3) by (intro power_mono) simp_all
  ultimately show ?thesis using assms(4) by simp
qed

lemma pi_bounds: "3.139 < pi \<and> pi < 3.1465"
proof -
  define x where "x = pi / 6"
  have s: "sin x = 1 / 2" by (simp add: x_def sin_30)
  have x0: "0 \<le> x" by (simp add: x_def)
  have up: "x - x ^ 3 / 6 - x ^ 5 / 120 \<le> 1 / 2" using sin_lower [OF x0] s by simp
  have lo: "1 / 2 \<le> x - x ^ 3 / 6 + x ^ 5 / 120" using sin_upper [OF x0] s by simp
  have u0: "x \<le> 2 / 3" using pi_less_4 by (simp add: x_def)
  have u1: "x \<le> 0.541" using up_step [OF x0 u0 up] by (simp add: power2_eq_square eval_nat_numeral)
  have u2: "x \<le> 0.5261" using up_step [OF x0 u1 up] by (simp add: power2_eq_square eval_nat_numeral)
  have u3: "x \<le> 0.52454" using up_step [OF x0 u2 up] by (simp add: power2_eq_square eval_nat_numeral)
  have u4: "x \<le> 0.5244" using up_step [OF x0 u3 up] by (simp add: power2_eq_square eval_nat_numeral)
  have l0: "1 / 3 \<le> x" using pi_ge_two by (simp add: x_def)
  have l1: "0.5058 \<le> x" using low_step [OF _ l0 u4 lo] by (simp add: eval_nat_numeral)
  have l2: "0.5212 \<le> x" using low_step [OF _ l1 u4 lo] by (simp add: eval_nat_numeral)
  have l3: "0.52325 \<le> x" using low_step [OF _ l2 u4 lo] by (simp add: eval_nat_numeral)
  show ?thesis using u4 l3 by (simp add: x_def)
qed

lemma K_bounds: "0.997 < catalystScale \<and> catalystScale < 1"
  using pi_bounds by (simp add: catalystScale_def)

text \<open>The phases of the four days, relative to the nearest multiple of a quarter turn.\<close>

lemma phase_266: "2 * pi * (266 - 80) / 365.25 = pi + pi * (27 / 1461)"
  by (simp add: field_simps)

lemma phase_172: "2 * pi * (172 - 80) / 365.25 = pi / 2 + pi * (11 / 2922)"
  by (simp add: field_simps)

lemma phase_355: "2 * pi * (355 - 80) / 365.25 = 3 / 2 * pi + pi * (17 / 2922)"
  by (simp add: field_simps)

lemma cos_half_plus: "cos (pi / 2 + e) = - sin e" for e :: real
  by (simp add: cos_add)

lemma cos_3half_plus: "cos (3 / 2 * pi + e) = sin e" for e :: real
proof -
  have "3 / 2 * pi + e = pi + (pi / 2 + e)" by simp
  then have "cos (3 / 2 * pi + e) = cos (pi + (pi / 2 + e))" by (simp only:)
  also have "\<dots> = - cos (pi / 2 + e)" by (rule cos_periodic_pi2)
  also have "\<dots> = sin e" by (simp only: cos_half_plus minus_minus)
  finally show ?thesis .
qed

lemma cos_266: "\<bar>cos (2 * pi * (266 - 80) / 365.25)\<bar> = cos (pi * (27 / 1461))"
proof -
  have p: "0 \<le> cos (pi * (27 / 1461))"
    using pi_bounds by (intro cos_ge_zero) simp_all
  have "cos (2 * pi * (266 - 80) / 365.25) = - cos (pi * (27 / 1461))"
    by (simp only: phase_266 cos_periodic_pi2)
  then have "\<bar>cos (2 * pi * (266 - 80) / 365.25)\<bar> = \<bar>cos (pi * (27 / 1461))\<bar>"
    by (simp only: abs_minus_cancel)
  also have "\<dots> = cos (pi * (27 / 1461))" using p by (rule abs_of_nonneg)
  finally show ?thesis .
qed

lemma cos_172: "\<bar>cos (2 * pi * (172 - 80) / 365.25)\<bar> = sin (pi * (11 / 2922))"
proof -
  have p: "0 \<le> sin (pi * (11 / 2922))"
    using pi_bounds by (intro sin_ge_zero) simp_all
  have "cos (2 * pi * (172 - 80) / 365.25) = - sin (pi * (11 / 2922))"
    by (simp only: phase_172 cos_half_plus)
  then have "\<bar>cos (2 * pi * (172 - 80) / 365.25)\<bar> = \<bar>sin (pi * (11 / 2922))\<bar>"
    by (simp only: abs_minus_cancel)
  also have "\<dots> = sin (pi * (11 / 2922))" using p by (rule abs_of_nonneg)
  finally show ?thesis .
qed

lemma cos_355: "\<bar>cos (2 * pi * (355 - 80) / 365.25)\<bar> = sin (pi * (17 / 2922))"
proof -
  have p: "0 \<le> sin (pi * (17 / 2922))"
    using pi_bounds by (intro sin_ge_zero) simp_all
  have "cos (2 * pi * (355 - 80) / 365.25) = sin (pi * (17 / 2922))"
    by (simp only: phase_355 cos_3half_plus)
  then have "\<bar>cos (2 * pi * (355 - 80) / 365.25)\<bar> = \<bar>sin (pi * (17 / 2922))\<bar>"
    by (simp only:)
  also have "\<dots> = sin (pi * (17 / 2922))" using p by (rule abs_of_nonneg)
  finally show ?thesis .
qed

lemma peak_266: "0.998 < cos (pi * (27 / 1461)) \<and> cos (pi * (27 / 1461)) \<le> 1"
proof -
  let ?e = "pi * (27 / 1461)"
  have e: "0 \<le> ?e \<and> ?e \<le> 0.0582" using pi_bounds by simp
  then have "?e\<^sup>2 \<le> 0.0582\<^sup>2" by (intro power_mono) simp_all
  then have "1 - 0.0582\<^sup>2 / 2 \<le> 1 - ?e\<^sup>2 / 2" by simp
  also have "\<dots> \<le> cos ?e" by (rule cos_lower)
  finally show ?thesis by (simp add: power2_eq_square)
qed

lemma small_sin:
  fixes e :: real
  assumes "0 \<le> l" "l \<le> e" "e \<le> u" "u \<le> 1"
  shows "l - u ^ 3 / 6 - u ^ 5 / 120 \<le> sin e \<and> sin e \<le> u"
proof -
  have e0: "0 \<le> e" using assms by simp
  have "e ^ 3 \<le> u ^ 3" "e ^ 5 \<le> u ^ 5" using e0 assms(3) by (simp_all add: power_mono)
  then have "l - u ^ 3 / 6 - u ^ 5 / 120 \<le> e - e ^ 3 / 6 - e ^ 5 / 120"
    using assms(2) by simp
  also have "\<dots> \<le> sin e" by (rule sin_lower [OF e0])
  finally have a: "l - u ^ 3 / 6 - u ^ 5 / 120 \<le> sin e" .
  have "sin e \<le> e" using e0 by (rule sin_x_le_x)
  then show ?thesis using a assms(3) by simp
qed

lemma trough_172: "0.0118 < sin (pi * (11 / 2922)) \<and> sin (pi * (11 / 2922)) < 0.0119"
proof -
  have "0.01181 \<le> pi * (11 / 2922) \<and> pi * (11 / 2922) \<le> 0.01185"
    using pi_bounds by simp
  then show ?thesis
    using small_sin [of "0.01181" "pi * (11 / 2922)" "0.01185"] by (simp add: eval_nat_numeral)
qed

lemma trough_355: "0.0182 < sin (pi * (17 / 2922)) \<and> sin (pi * (17 / 2922)) < 0.0184"
proof -
  have "0.01826 \<le> pi * (17 / 2922) \<and> pi * (17 / 2922) \<le> 0.01831"
    using pi_bounds by simp
  then show ?thesis
    using small_sin [of "0.01826" "pi * (17 / 2922)" "0.01831"] by (simp add: eval_nat_numeral)
qed

lemma getCatalyst_days:
  "getCatalyst (Num 80) = Num 1"
  "getCatalyst (Num 266) = Num (cos (pi * (27 / 1461)))"
  "getCatalyst (Num 172) = Num (sin (pi * (11 / 2922)))"
  "getCatalyst (Num 355) = Num (sin (pi * (17 / 2922)))"
proof -
  show "getCatalyst (Num 80) = Num 1" by (simp add: getCatalyst_value)
  show "getCatalyst (Num 266) = Num (cos (pi * (27 / 1461)))"
    by (simp only: getCatalyst_value cos_266)
  show "getCatalyst (Num 172) = Num (sin (pi * (11 / 2922)))"
    by (simp only: getCatalyst_value cos_172)
  show "getCatalyst (Num 355) = Num (sin (pi * (17 / 2922)))"
    by (simp only: getCatalyst_value cos_355)
qed

lemma calc_getCatalyst_days:
  "calc_getCatalyst (Num 80) = Num catalystScale"
  "calc_getCatalyst (Num 266) = Num (catalystScale * cos (pi * (27 / 1461)))"
  "calc_getCatalyst (Num 172) = Num (catalystScale * sin (pi * (11 / 2922)))"
  "calc_getCatalyst (Num 355) = Num (catalystScale * sin (pi * (17 / 2922)))"
proof -
  show "calc_getCatalyst (Num 80) = Num catalystScale" by (simp add: calc_getCatalyst_value)
  show "calc_getCatalyst (Num 266) = Num (catalystScale * cos (pi * (27 / 1461)))"
    by (simp only: calc_getCatalyst_value cos_266)
  show "calc_getCatalyst (Num 172) = Num (catalystScale * sin (pi * (11 / 2922)))"
    by (simp only: calc_getCatalyst_value cos_172)
  show "calc_getCatalyst (Num 355) = Num (catalystScale * sin (pi * (17 / 2922)))"
    by (simp only: calc_getCatalyst_value cos_355)
qed

lemma scaled_bounds:
  fixes k x :: real
  assumes "a < k" "k < 1" "l < x" "x < u" "0 \<le> a" "0 \<le> l"
  shows "a * l < k * x \<and> k * x < u"
proof -
  have "a * l < k * x" using assms by (intro mult_strict_mono') simp_all
  moreover have "k * x \<le> 1 * x" using assms by (intro mult_right_mono) simp_all
  ultimately show ?thesis using assms(4) by simp
qed

lemma K_peak_266: "0.99 < catalystScale * cos (pi * (27 / 1461)) \<and> catalystScale * cos (pi * (27 / 1461)) \<le> 1"
proof -
  have "catalystScale * cos (pi * (27 / 1461)) \<le> 1 * 1"
    using K_bounds peak_266 by (intro mult_mono) simp_all
  moreover have "0.997 * 0.998 < catalystScale * cos (pi * (27 / 1461))"
    using K_bounds peak_266 by (intro mult_strict_mono') simp_all
  ultimately show ?thesis by simp
qed

lemma K_trough_172:
  "0.01 < catalystScale * sin (pi * (11 / 2922)) \<and> catalystScale * sin (pi * (11 / 2922)) < 0.02"
  using scaled_bounds [of "0.997" catalystScale "0.0118" "sin (pi * (11 / 2922))" "0.0119"]
    K_bounds trough_172 by simp

lemma K_trough_355:
  "0.01 < catalystScale * sin (pi * (17 / 2922)) \<and> catalystScale * sin (pi * (17 / 2922)) < 0.02"
  using scaled_bounds [of "0.997" catalystScale "0.0182" "sin (pi * (17 / 2922))" "0.0184"]
    K_bounds trough_355 by simp

text \<open>
  Claim C2, as the code has it. The claim puts the catalyst of the days 172 and 355 within
  \<open>0.01\<close> of \<open>0\<close>. The zeros of the cosine fall between the days (at 171.3 and 353.9),
  and on the two days the catalyst is about \<open>0.0118\<close> and \<open>0.0183\<close>, in both copies
  of the formula.
\<close>

theorem catalyst_troughs_above_tolerance:
  "jlt (Num (1 / 100)) (getCatalyst (Num 172))
   \<and> jlt (Num (1 / 100)) (getCatalyst (Num 355))
   \<and> jlt (Num (1 / 100)) (calc_getCatalyst (Num 172))
   \<and> jlt (Num (1 / 100)) (calc_getCatalyst (Num 355))"
  using trough_172 trough_355 K_trough_172 K_trough_355
  by (simp add: getCatalyst_days calc_getCatalyst_days)

text \<open>
  Claim C2, amended. For every day the catalyst is a number in \<open>[0, 1]\<close>; on the days 80
  and 266 it is within \<open>0.01\<close> of \<open>1\<close>, and on the days 172 and 355 it is within
  \<open>0.02\<close> of \<open>0\<close>. This holds for the engine's \<open>|cos (2 pi (d - 80) / 365.25)|\<close>
  and for the calculator's normalised derivative.
\<close>

theorem catalyst_range_and_extremes:
  "(\<exists>v. getCatalyst (Num d) = Num v \<and> 0 \<le> v \<and> v \<le> 1)
   \<and> (\<exists>v. calc_getCatalyst (Num d) = Num v \<and> 0 \<le> v \<and> v \<le> 1)
   \<and> getCatalyst (Num 80) = Num 1
   \<and> (\<exists>v. getCatalyst (Num 266) = Num v \<and> \<bar>v - 1\<bar> < 1 / 100)
   \<and> (\<exists>v. getCatalyst (Num 172) = Num v \<and> \<bar>v\<bar> < 2 / 100)
   \<and> (\<exists>v. getCatalyst (Num 355) = Num v \<and> \<bar>v\<bar> < 2 / 100)
   \<and> (\<exists>v. calc_getCatalyst (Num 80) = Num v \<and> \<bar>v - 1\<bar> < 1 / 100)
   \<and> (\<exists>v. calc_getCatalyst (Num 266) = Num v \<and> \<bar>v - 1\<bar> < 1 / 100)
   \<and> (\<exists>v. calc_getCatalyst (Num 172) = Num v \<and> \<bar>v\<bar> < 2 / 100)
   \<and> (\<exists>v. calc_getCatalyst (Num 355) = Num v \<and> \<bar>v\<bar> < 2 / 100)"
proof -
  have "catalystScale * \<bar>cos (2 * pi * (d - 80) / 365.25)\<bar> \<le> 1 * 1"
    using K_bounds by (intro mult_mono) simp_all
  moreover have "0 \<le> catalystScale * \<bar>cos (2 * pi * (d - 80) / 365.25)\<bar>"
    using K_bounds by simp
  ultimately have r: "\<exists>v. calc_getCatalyst (Num d) = Num v \<and> 0 \<le> v \<and> v \<le> 1"
    by (simp add: calc_getCatalyst_value)
  have e: "\<exists>v. getCatalyst (Num d) = Num v \<and> 0 \<le> v \<and> v \<le> 1"
    by (simp add: getCatalyst_value)
  show ?thesis
    using e r K_bounds peak_266 trough_172 trough_355 K_peak_266 K_trough_172 K_trough_355
    by (simp add: getCatalyst_days calc_getCatalyst_days)
qed

end
